theory Spec2Isabelle
  imports Complex_Main "HOL-Library.Char_ord" "HOL-Library.List_Lexorder" "HOL-Library.Multiset"
begin

section \<open>PayLevel Up: payroll aggregation and reconciliation\<close>

text \<open>
  The development follows the TypeScript sources: \<^verbatim>\<open>App.tsx\<close> (state, load-time
  migration, job deletion, the type declarations), \<^verbatim>\<open>CalendarView\<close> (log value, range
  selection, range totals), \<^verbatim>\<open>Dashboard\<close> (log earnings, progress, chart buckets) and
  \<^verbatim>\<open>PayslipVerifier\<close> (payslip reconciliation).

  A JavaScript number is modelled by the real number it denotes. Where a property depends
  on the rounding of double-precision arithmetic (the value of a log, the totals of a
  range, total earnings, chart hours, the hour differences of the payslip check), the
  operations are the rounded ones of the section on double-precision arithmetic. The pay
  figures and period hours of the payslip check and the progress ratio are written in
  exact arithmetic; the one place where the source can produce \<open>NaN\<close> or \<open>Infinity\<close>, the
  division in the progress computation, has an explicit number type. Strings are compared
  as the source does, lexicographically by character code.
\<close>

subsection \<open>The runtime's Date, restricted to what the sources use\<close>

text \<open>
  A valid Date is its time value, milliseconds since 1970-01-01T00:00:00Z, here an
  unbounded integer. Calendar fields are those of the proleptic Gregorian calendar.

  What the sources leave to the runtime is a parameter \<open>rt\<close> of the model: the local time
  zone and the parsing of strings that are not a valid date of the form \<open>YYYY-MM-DD\<close>.
  A time zone is given by its offset from UTC, in minutes east of UTC, as a function of
  the instant, so that daylight-saving changes are covered: \<open>utcOffset\<close> is the offset in
  effect at a UTC time value, \<open>localOffset\<close> the offset by which a local time value is
  read back.
\<close>

record Runtime =
  utcOffset :: "int \<Rightarrow> int"
  localOffset :: "int \<Rightarrow> int"
  parseOther :: "string \<Rightarrow> int option"

definition msPerDay :: int where
  "msPerDay = 86400000"

definition Day :: "int \<Rightarrow> int" where
  "Day t = t div msPerDay"

definition TimeWithinDay :: "int \<Rightarrow> int" where
  "TimeWithinDay t = t mod msPerDay"

definition LocalTime :: "Runtime \<Rightarrow> int \<Rightarrow> int" where
  "LocalTime rt t = t + utcOffset rt t * 60000"

definition UTC :: "Runtime \<Rightarrow> int \<Rightarrow> int" where
  "UTC rt lt = lt - localOffset rt lt * 60000"

definition MakeDate :: "int \<Rightarrow> int \<Rightarrow> int" where
  "MakeDate day time = day * msPerDay + time"

text \<open>Year, month (1..12) and day of month (1..31) of a day number.\<close>

definition civil_from_days :: "int \<Rightarrow> int \<times> int \<times> int" where
  "civil_from_days n =
     (let z = n + 719468;
          era = z div 146097;
          doe = z mod 146097;
          yoe = (doe - doe div 1460 + doe div 36524 - doe div 146096) div 365;
          doy = doe - (365 * yoe + yoe div 4 - yoe div 100);
          mp = (5 * doy + 2) div 153;
          d = doy - (153 * mp + 2) div 5 + 1;
          m = (if mp < 10 then mp + 3 else mp - 9);
          y = yoe + era * 400 + (if m \<le> 2 then 1 else 0)
      in (y, m, d))"

text \<open>The day number of a calendar date.\<close>

definition days_from_civil :: "int \<Rightarrow> int \<Rightarrow> int \<Rightarrow> int" where
  "days_from_civil y m d =
     (let y' = (if m \<le> 2 then y - 1 else y);
          era = y' div 400;
          yoe = y' mod 400;
          mp = (if m > 2 then m - 3 else m + 9);
          doy = (153 * mp + 2) div 5 + d - 1;
          doe = yoe * 365 + yoe div 4 - yoe div 100 + doy
      in era * 146097 + doe - 719468)"

definition DateFromTime :: "int \<Rightarrow> int" where
  "DateFromTime t = snd (snd (civil_from_days (Day t)))"

text \<open>
  \<open>getDay\<close>, \<open>getDate\<close> and \<open>setDate\<close> work in local time. \<open>setDate\<close> keeps the
  year, the month and the time within the day: the new day number is that of the first of
  the month, plus the given day of month, minus one (so a value outside the month rolls
  over into the neighbouring months).
\<close>

definition getDay :: "Runtime \<Rightarrow> int \<Rightarrow> int" where
  "getDay rt t = (Day (LocalTime rt t) + 4) mod 7"

definition getDate :: "Runtime \<Rightarrow> int \<Rightarrow> int" where
  "getDate rt t = DateFromTime (LocalTime rt t)"

definition setDate :: "Runtime \<Rightarrow> int \<Rightarrow> int \<Rightarrow> int" where
  "setDate rt t dt =
     (let lt = LocalTime rt t;
          firstOfMonth = Day lt - (DateFromTime lt - 1)
      in UTC rt (MakeDate (firstOfMonth + dt - 1) (TimeWithinDay lt)))"

text \<open>Decimal digits, fixed-width fields and the date part of \<open>toISOString()\<close>.\<close>

definition digitChar :: "int \<Rightarrow> char" where
  "digitChar n = ''0123456789'' ! nat (n mod 10)"

definition pad2 :: "int \<Rightarrow> string" where
  "pad2 n = [digitChar (n div 10), digitChar n]"

definition pad4 :: "int \<Rightarrow> string" where
  "pad4 n = [digitChar (n div 1000), digitChar (n div 100), digitChar (n div 10), digitChar n]"

definition pad6 :: "int \<Rightarrow> string" where
  "pad6 n = [digitChar (n div 100000), digitChar (n div 10000)] @ pad4 n"

definition isoYear :: "int \<Rightarrow> string" where
  "isoYear y =
     (if 0 \<le> y \<and> y \<le> 9999 then pad4 y
      else if y < 0 then CHR ''-'' # pad6 (- y)
      else CHR ''+'' # pad6 y)"

definition isoDate :: "int \<Rightarrow> string" where
  "isoDate n =
     (case civil_from_days n of
        (y, m, d) \<Rightarrow> isoYear y @ ''-'' @ pad2 m @ ''-'' @ pad2 d)"

text \<open>\<open>d.toISOString().split('T')[0]\<close> and \<open>d.toISOString().slice(0, 10)\<close> of a valid Date
  whose year has four digits.\<close>

definition toISODate :: "int \<Rightarrow> string" where
  "toISODate t = isoDate (Day t)"

text \<open>
  \<open>new Date(s)\<close> for a string. A valid date of the form \<open>YYYY-MM-DD\<close> is UTC midnight
  of that day, in every runtime. What any other string gives (an Invalid Date, \<open>None\<close>, or
  some date) differs between runtimes and is the runtime's \<open>parseOther\<close>. The application
  stores dates produced by \<open>toISOString\<close> and by date inputs, which are valid dates of
  this form.
\<close>

definition digitVal :: "char \<Rightarrow> int option" where
  "digitVal c =
     (let n = (of_char c :: nat) in if 48 \<le> n \<and> n \<le> 57 then Some (int n - 48) else None)"

fun number_of_digits :: "string \<Rightarrow> int option" where
  "number_of_digits [] = Some 0"
| "number_of_digits cs =
     (case (number_of_digits (butlast cs), digitVal (last cs)) of
        (Some hi, Some lo) \<Rightarrow> Some (10 * hi + lo)
      | _ \<Rightarrow> None)"

definition isLeap :: "int \<Rightarrow> bool" where
  "isLeap y = (y mod 4 = 0 \<and> (y mod 100 \<noteq> 0 \<or> y mod 400 = 0))"

definition daysInMonth :: "int \<Rightarrow> int \<Rightarrow> int" where
  "daysInMonth y m =
     (if m = 2 then (if isLeap y then 29 else 28)
      else if m = 4 \<or> m = 6 \<or> m = 9 \<or> m = 11 then 30 else 31)"

definition parseDateOnly :: "string \<Rightarrow> int option" where
  "parseDateOnly s =
     (if length s = 10 \<and> s ! 4 = CHR ''-'' \<and> s ! 7 = CHR ''-'' then
        (case (number_of_digits (take 4 s), number_of_digits (take 2 (drop 5 s)),
               number_of_digits (drop 8 s)) of
           (Some y, Some m, Some d) \<Rightarrow>
             (if 1 \<le> m \<and> m \<le> 12 \<and> 1 \<le> d \<and> d \<le> daysInMonth y m
              then Some (MakeDate (days_from_civil y m d) 0) else None)
         | _ \<Rightarrow> None)
      else None)"

definition Date_parse :: "Runtime \<Rightarrow> string \<Rightarrow> int option" where
  "Date_parse rt s = (case parseDateOnly s of Some t \<Rightarrow> Some t | None \<Rightarrow> parseOther rt s)"

text \<open>\<open>new Date(s).getDay()\<close>: \<open>None\<close> is \<open>NaN\<close>, the result on an Invalid Date.\<close>

definition getDay_of :: "Runtime \<Rightarrow> string \<Rightarrow> int option" where
  "getDay_of rt s = map_option (getDay rt) (Date_parse rt s)"

text \<open>The day of the week of the calendar date that a string of the form \<open>YYYY-MM-DD\<close>
  names, 0 for Sunday to 6 for Saturday.\<close>

definition calendarDay :: "string \<Rightarrow> int option" where
  "calendarDay s = map_option (\<lambda>t. (Day t + 4) mod 7) (parseDateOnly s)"

text \<open>A runtime whose time zone has a constant offset and which parses no other string.\<close>

definition fixedOffset :: "int \<Rightarrow> Runtime" where
  "fixedOffset c = \<lparr> utcOffset = (\<lambda>t. c), localOffset = (\<lambda>lt. c), parseOther = (\<lambda>s. None) \<rparr>"

subsection \<open>Double-precision arithmetic\<close>

text \<open>
  JavaScript numbers are IEEE 754 doubles: an arithmetic operation returns the exact
  result rounded to the nearest double, and of two nearest doubles the one whose
  significand is even. A double has a significand of 53 bits. The range of the exponent is
  not bounded here: there is no overflow to \<open>Infinity\<close> and there are no subnormal numbers.

  \<open>binade x\<close> is the exponent of the power of two at or below \<open>\<bar>x\<bar>\<close>; the doubles of that
  binade are the multiples of \<open>2 powi (binade x - 52)\<close>.
\<close>

definition round_even :: "real \<Rightarrow> int" where
  "round_even y =
     (let f = \<lfloor>y\<rfloor>; r = y - of_int f
      in if r < 1 / 2 then f
         else if r > 1 / 2 then f + 1
         else if even f then f else f + 1)"

definition binade :: "real \<Rightarrow> int" where
  "binade x = \<lfloor>log 2 \<bar>x\<bar>\<rfloor>"

definition rnd :: "real \<Rightarrow> real" where
  "rnd x =
     (if x = 0 then 0
      else (let e = binade x - 52 in of_int (round_even (x / 2 powi e)) * 2 powi e))"

text \<open>The operators \<open>+\<close>, \<open>-\<close> and \<open>*\<close> on doubles.\<close>

definition dadd :: "real \<Rightarrow> real \<Rightarrow> real" where
  "dadd a b = rnd (a + b)"

definition dsub :: "real \<Rightarrow> real \<Rightarrow> real" where
  "dsub a b = rnd (a - b)"

definition dmul :: "real \<Rightarrow> real \<Rightarrow> real" where
  "dmul a b = rnd (a * b)"

text \<open>A multiple of \<open>1 / 2 ^ k\<close>.\<close>

definition onGrid :: "nat \<Rightarrow> real \<Rightarrow> bool" where
  "onGrid k x = (\<exists>m::int. x = of_int m / 2 ^ k)"

subsection \<open>Data model (\<^verbatim>\<open>types.ts\<close>)\<close>

record Job =
  job_id :: string
  job_name :: string
  color :: string
  hourlyRate :: real
  weekendHourlyRate :: real
  targetHours :: real
  nextHourlyRate :: real
  nextWeekendHourlyRate :: real

text \<open>A log read from an old persisted state may have no \<open>jobId\<close> property.\<close>

record WorkLog =
  log_id :: string
  jobId :: "string option"
  date :: string
  startTime :: string
  endTime :: string
  duration :: real
  log_notes :: string
  timestamp :: int

definition DEFAULT_JOB :: Job where
  "DEFAULT_JOB =
     \<lparr> job_id = ''default'', job_name = ''Main Job'', color = ''#4F46E5'',
       hourlyRate = 60, weekendHourlyRate = 60, targetHours = 1000,
       nextHourlyRate = 70, nextWeekendHourlyRate = 70 \<rparr>"

text \<open>\<open>jobs.find(j => j.id === log.jobId)\<close>.\<close>

definition findJob :: "Job list \<Rightarrow> string option \<Rightarrow> Job option" where
  "findJob jobs jid = find (\<lambda>j. Some (job_id j) = jid) jobs"

subsection \<open>Rate resolution\<close>

text \<open>\<open>getLogValue\<close> of the calendar view.\<close>

definition getLogValue :: "Runtime \<Rightarrow> Job list \<Rightarrow> WorkLog \<Rightarrow> real" where
  "getLogValue rt jobs lg =
     (case findJob jobs (jobId lg) of
        None \<Rightarrow> 0
      | Some job \<Rightarrow>
          (let day = getDay_of rt (date lg);
               isWeekend = (day = Some 0 \<or> day = Some 6)
           in dmul (duration lg) (if isWeekend then weekendHourlyRate job else hourlyRate job)))"

text \<open>\<open>getLogEarnings\<close> and \<open>calculateTotalEarnings\<close> of the dashboard.\<close>

definition getLogEarnings :: "Runtime \<Rightarrow> Job list \<Rightarrow> WorkLog \<Rightarrow> real" where
  "getLogEarnings rt jobs lg =
     (case findJob jobs (jobId lg) of
        None \<Rightarrow> 0
      | Some job \<Rightarrow>
          (let day = getDay_of rt (date lg);
               isWeekend = (day = Some 0 \<or> day = Some 6);
               rate = (if isWeekend then weekendHourlyRate job else hourlyRate job)
           in dmul (duration lg) rate))"

definition calculateTotalEarnings :: "Runtime \<Rightarrow> Job list \<Rightarrow> WorkLog list \<Rightarrow> real" where
  "calculateTotalEarnings rt jobs logsToCalc =
     foldl (\<lambda>sum lg. dadd sum (getLogEarnings rt jobs lg)) 0 logsToCalc"

subsection \<open>Job filter and progress (dashboard)\<close>

text \<open>\<open>filteredLogs\<close>, shared by the dashboard and the calendar view.\<close>

definition filteredLogs :: "string \<Rightarrow> WorkLog list \<Rightarrow> WorkLog list" where
  "filteredLogs selectedJobId logs =
     (if selectedJobId = ''all'' then logs
      else filter (\<lambda>l. jobId l = Some selectedJobId) logs)"

text \<open>
  The progress computation divides by \<open>targetHours\<close> with no test of the divisor, so its
  result is a JavaScript number that may be \<open>NaN\<close> or infinite. Signed zeros are not
  distinguished.
\<close>

datatype jsnum = Num real | PosInfinity | NegInfinity | NaN

definition js_div :: "real \<Rightarrow> real \<Rightarrow> jsnum" where
  "js_div a b =
     (if b \<noteq> 0 then Num (a / b)
      else if a > 0 then PosInfinity
      else if a < 0 then NegInfinity
      else NaN)"

fun js_times :: "jsnum \<Rightarrow> real \<Rightarrow> jsnum" where
  "js_times (Num x) c = Num (x * c)"
| "js_times PosInfinity c = (if c > 0 then PosInfinity else if c < 0 then NegInfinity else NaN)"
| "js_times NegInfinity c = (if c > 0 then NegInfinity else if c < 0 then PosInfinity else NaN)"
| "js_times NaN c = NaN"

fun Math_max :: "real \<Rightarrow> jsnum \<Rightarrow> jsnum" where
  "Math_max a (Num x) = Num (max a x)"
| "Math_max a PosInfinity = PosInfinity"
| "Math_max a NegInfinity = Num a"
| "Math_max a NaN = NaN"

fun Math_min :: "real \<Rightarrow> jsnum \<Rightarrow> jsnum" where
  "Math_min a (Num x) = Num (min a x)"
| "Math_min a PosInfinity = Num a"
| "Math_min a NegInfinity = NegInfinity"
| "Math_min a NaN = NaN"

text \<open>\<open>Math.min(100, Math.max(0, (totalHours / targetHours) * 100))\<close>.\<close>

definition progressPercent :: "real \<Rightarrow> real \<Rightarrow> jsnum" where
  "progressPercent totalHours tgt = Math_min 100 (Math_max 0 (js_times (js_div totalHours tgt) 100))"

record Progress =
  prog_totalHours :: real
  prog_targetHours :: real
  prog_percent :: jsnum
  canLevelUp :: bool
  activeJobForLevelUp :: "Job option"

definition dashboardProgress :: "Job list \<Rightarrow> string \<Rightarrow> WorkLog list \<Rightarrow> Progress" where
  "dashboardProgress jobs selectedJobId logs =
     (let totalHours = foldl (\<lambda>acc l. acc + duration l) 0 (filteredLogs selectedJobId logs);
          none = \<lparr> prog_totalHours = totalHours, prog_targetHours = 0, prog_percent = Num 0,
                   canLevelUp = False, activeJobForLevelUp = None \<rparr>
      in if selectedJobId \<noteq> ''all'' then
           (case findJob jobs (Some selectedJobId) of
              Some job \<Rightarrow>
                \<lparr> prog_totalHours = totalHours,
                  prog_targetHours = targetHours job,
                  prog_percent = progressPercent totalHours (targetHours job),
                  canLevelUp = (totalHours \<ge> targetHours job \<and> hourlyRate job < nextHourlyRate job),
                  activeJobForLevelUp = Some job \<rparr>
            | None \<Rightarrow> none)
         else none)"

text \<open>The spec's clamp, on exact numbers.\<close>

definition clamp :: "real \<Rightarrow> real \<Rightarrow> real \<Rightarrow> real" where
  "clamp lo hi x = min hi (max lo x)"

subsection \<open>Payslip reconciliation (payslip verifier)\<close>

datatype error = TypeError | RangeError | InvalidFileFormat







text \<open>
  \<open>DiffRow\<close>: the three flags, and whether one of the two buttons is rendered. The
  literal \<open>0.1\<close> of the source is the double nearest to one tenth.
\<close>

definition isOver :: "real \<Rightarrow> bool" where
  "isOver diff = (diff < - rnd (1 / 10))"

definition isUnder :: "real \<Rightarrow> bool" where
  "isUnder diff = (diff > rnd (1 / 10))"


definition remediationOffered :: "real \<Rightarrow> bool" where
  "remediationOffered diff = (isUnder diff \<or> isOver diff)"

text \<open>
  \<open>x.toFixed(2)\<close> is the decimal with two fraction digits nearest to the exact value of
  the double \<open>x\<close>, a tie going away from zero; \<open>toFixed2\<close> is the number that decimal
  denotes. \<open>parseFloat\<close> of it is the nearest double.
\<close>

definition toFixed2 :: "real \<Rightarrow> real" where
  "toFixed2 x =
     (if x < 0 then - (of_int \<lfloor>(- x) * 100 + 1 / 2\<rfloor> / 100)
      else of_int \<lfloor>x * 100 + 1 / 2\<rfloor> / 100)"






subsection \<open>Load-time migration (\<^verbatim>\<open>App.tsx\<close>)\<close>

text \<open>
  A settings object as it comes out of \<open>JSON.parse\<close>: every property may be absent. The
  last five are the deprecated single-job fields.
\<close>

record UserSettings =
  currency :: "string option"
  userName :: "string option"
  payFrequency :: "string option"
  taxRate :: "real option"
  theme :: "string option"
  lastBackupTimestamp :: "int option"
  old_targetHours :: "real option"
  old_hourlyRate :: "real option"
  old_weekendHourlyRate :: "real option"
  old_nextHourlyRate :: "real option"
  old_nextWeekendHourlyRate :: "real option"

definition DEFAULT_SETTINGS :: UserSettings where
  "DEFAULT_SETTINGS =
     \<lparr> currency = Some ''HKD'', userName = Some ''Employee'', payFrequency = Some ''biweekly'',
       taxRate = Some 0, theme = Some ''light'', lastBackupTimestamp = None,
       old_targetHours = None, old_hourlyRate = None, old_weekendHourlyRate = None,
       old_nextHourlyRate = None, old_nextWeekendHourlyRate = None \<rparr>"

text \<open>
  The operator \<open>||\<close>: the left operand when it is truthy, else the right one. An absent
  number and the number 0 are falsy; an absent string and the empty string are falsy.
\<close>

definition truthy_num :: "real option \<Rightarrow> bool" where
  "truthy_num a = (case a of None \<Rightarrow> False | Some v \<Rightarrow> v \<noteq> 0)"

definition or_opt :: "real option \<Rightarrow> real option \<Rightarrow> real option" where
  "or_opt a b = (if truthy_num a then a else b)"

definition or_num :: "real option \<Rightarrow> real \<Rightarrow> real" where
  "or_num a b = (case a of None \<Rightarrow> b | Some v \<Rightarrow> if v \<noteq> 0 then v else b)"

definition truthy_str :: "string option \<Rightarrow> bool" where
  "truthy_str a = (case a of None \<Rightarrow> False | Some v \<Rightarrow> v \<noteq> [])"

definition or_str :: "string option \<Rightarrow> string \<Rightarrow> string" where
  "or_str a b = (case a of None \<Rightarrow> b | Some v \<Rightarrow> if v \<noteq> [] then v else b)"

text \<open>The synthesized job; \<open>newId\<close> is the value of \<open>crypto.randomUUID()\<close>.\<close>

definition mainJob :: "string \<Rightarrow> UserSettings \<Rightarrow> Job" where
  "mainJob newId oldSettings =
     DEFAULT_JOB
       \<lparr> job_id := newId,
         job_name := ''Main Job'',
         hourlyRate := or_num (old_hourlyRate oldSettings) (hourlyRate DEFAULT_JOB),
         weekendHourlyRate :=
           or_num (or_opt (old_weekendHourlyRate oldSettings) (old_hourlyRate oldSettings))
                  (weekendHourlyRate DEFAULT_JOB),
         targetHours := or_num (old_targetHours oldSettings) (targetHours DEFAULT_JOB),
         nextHourlyRate := or_num (old_nextHourlyRate oldSettings) (nextHourlyRate DEFAULT_JOB),
         nextWeekendHourlyRate :=
           or_num (or_opt (old_nextWeekendHourlyRate oldSettings) (old_nextHourlyRate oldSettings))
                  (nextWeekendHourlyRate DEFAULT_JOB) \<rparr>"

text \<open>
  The migration step, on the variables it reads and assigns: \<open>currentJobs\<close> and
  \<open>currentLogs\<close>, with \<open>parsed.settings\<close> as \<open>oldSettings\<close>. Reading a property of an
  absent settings object throws a \<open>TypeError\<close>.
\<close>

definition migrate ::
  "string \<Rightarrow> UserSettings option \<Rightarrow> Job list \<times> WorkLog list \<Rightarrow> error + Job list \<times> WorkLog list" where
  "migrate newId oldSettings st =
     (case st of (currentJobs, currentLogs) \<Rightarrow>
        if length currentJobs = 0 then
          (case oldSettings of
             None \<Rightarrow> Inl TypeError
           | Some old \<Rightarrow>
               (let mj = mainJob newId old
                in Inr ([mj], map (\<lambda>l. l\<lparr> jobId := Some (or_str (jobId l) (job_id mj)) \<rparr>) currentLogs)))
        else Inr (currentJobs, currentLogs))"

text \<open>The parsed blob and the state the application keeps.\<close>

record 'tpl ParsedState =
  p_logs :: "WorkLog list option"
  p_settings :: "UserSettings option"
  p_jobs :: "Job list option"
  p_templates :: "'tpl list option"

record 'tpl AppState =
  st_logs :: "WorkLog list"
  st_settings :: UserSettings
  st_jobs :: "Job list"
  st_templates :: "'tpl list"

definition or_list :: "'a list option \<Rightarrow> 'a list" where
  "or_list a = (case a of None \<Rightarrow> [] | Some xs \<Rightarrow> xs)"

definition or_field :: "'a option \<Rightarrow> 'a option \<Rightarrow> 'a option" where
  "or_field dflt a = (case a of None \<Rightarrow> dflt | Some v \<Rightarrow> Some v)"

text \<open>\<open>{ ...DEFAULT_SETTINGS, ...parsed.settings }\<close>.\<close>

definition spreadSettings :: "UserSettings \<Rightarrow> UserSettings option \<Rightarrow> UserSettings" where
  "spreadSettings dflt ps =
     (case ps of
        None \<Rightarrow> dflt
      | Some s \<Rightarrow>
          \<lparr> currency = or_field (currency dflt) (currency s),
            userName = or_field (userName dflt) (userName s),
            payFrequency = or_field (payFrequency dflt) (payFrequency s),
            taxRate = or_field (taxRate dflt) (taxRate s),
            theme = or_field (theme dflt) (theme s),
            lastBackupTimestamp = or_field (lastBackupTimestamp dflt) (lastBackupTimestamp s),
            old_targetHours = or_field (old_targetHours dflt) (old_targetHours s),
            old_hourlyRate = or_field (old_hourlyRate dflt) (old_hourlyRate s),
            old_weekendHourlyRate = or_field (old_weekendHourlyRate dflt) (old_weekendHourlyRate s),
            old_nextHourlyRate = or_field (old_nextHourlyRate dflt) (old_nextHourlyRate s),
            old_nextWeekendHourlyRate =
              or_field (old_nextWeekendHourlyRate dflt) (old_nextWeekendHourlyRate s) \<rparr>)"

text \<open>The body of the \<open>try\<close> block of the load effect.\<close>

definition loadBody :: "string \<Rightarrow> 'tpl ParsedState \<Rightarrow> error + 'tpl AppState" where
  "loadBody newId parsed =
     (let currentJobs = or_list (p_jobs parsed);
          currentLogs = or_list (p_logs parsed);
          currentSettings = spreadSettings DEFAULT_SETTINGS (p_settings parsed);
          currentTemplates = or_list (p_templates parsed)
      in case migrate newId (p_settings parsed) (currentJobs, currentLogs) of
           Inl e \<Rightarrow> Inl e
         | Inr (js, ls) \<Rightarrow>
             Inr \<lparr> st_logs = ls, st_settings = currentSettings, st_jobs = js,
                   st_templates = currentTemplates \<rparr>)"

text \<open>
  The state after the load effect, for a stored item that parses. The \<open>catch\<close> only
  logs the exception, so after a failure the state is the initial one of the component.
\<close>

definition initialState :: "'tpl AppState" where
  "initialState = \<lparr> st_logs = [], st_settings = DEFAULT_SETTINGS, st_jobs = [], st_templates = [] \<rparr>"

definition loadState :: "string \<Rightarrow> 'tpl ParsedState \<Rightarrow> 'tpl AppState" where
  "loadState newId parsed =
     (case loadBody newId parsed of
        Inl e \<Rightarrow> initialState
      | Inr st \<Rightarrow> st)"

text \<open>The state as the save effect writes it once the load effect has run, and as
  \<open>JSON.parse\<close> reads it back at the next start.\<close>

definition savedState :: "'tpl AppState \<Rightarrow> 'tpl ParsedState" where
  "savedState st =
     \<lparr> p_logs = Some (st_logs st), p_settings = Some (st_settings st),
       p_jobs = Some (st_jobs st), p_templates = Some (st_templates st) \<rparr>"

subsection \<open>Importing a backup file (\<^verbatim>\<open>App.tsx\<close>, \<^verbatim>\<open>DataManagement.tsx\<close>)\<close>

text \<open>
  \<open>handleImport\<close>, called by \<open>handleFileChange\<close> once the parsed file has its \<open>logs\<close> and
  its \<open>settings\<close>; \<open>confirmed\<close> is the answer of \<open>window.confirm\<close>. The jobs of the file
  are taken as they are.
\<close>

definition importJob :: "string \<Rightarrow> UserSettings \<Rightarrow> Job" where
  "importJob newId oldSettings =
     DEFAULT_JOB
       \<lparr> job_id := newId,
         hourlyRate := or_num (old_hourlyRate oldSettings) (hourlyRate DEFAULT_JOB),
         weekendHourlyRate :=
           or_num (or_opt (old_weekendHourlyRate oldSettings) (old_hourlyRate oldSettings))
                  (weekendHourlyRate DEFAULT_JOB) \<rparr>"

definition handleImport ::
  "bool \<Rightarrow> string \<Rightarrow> WorkLog list \<Rightarrow> UserSettings \<Rightarrow> 'tpl ParsedState \<Rightarrow> 'tpl AppState
     \<Rightarrow> 'tpl AppState" where
  "handleImport confirmed newId dataLogs dataSettings data st =
     (if confirmed then
        (let st1 = \<lparr> st_logs = dataLogs,
                      st_settings = spreadSettings DEFAULT_SETTINGS (Some dataSettings),
                      st_jobs = st_jobs st,
                      st_templates = or_list (p_templates data) \<rparr>
         in if length (or_list (p_jobs data)) = 0 then
              (let mj = importJob newId dataSettings
               in st1 \<lparr> st_jobs := [mj],
                        st_logs := map (\<lambda>l. l\<lparr> jobId := Some (job_id mj) \<rparr>) dataLogs \<rparr>)
            else st1 \<lparr> st_jobs := or_list (p_jobs data) \<rparr>)
      else st)"

definition handleFileChange ::
  "bool \<Rightarrow> string \<Rightarrow> 'tpl ParsedState \<Rightarrow> 'tpl AppState \<Rightarrow> error + 'tpl AppState" where
  "handleFileChange confirmed newId parsedData st =
     (case (p_logs parsedData, p_settings parsedData) of
        (Some dataLogs, Some dataSettings) \<Rightarrow>
          Inr (handleImport confirmed newId dataLogs dataSettings parsedData st)
      | _ \<Rightarrow> Inl InvalidFileFormat)"

subsection \<open>Deleting a job (\<^verbatim>\<open>App.tsx\<close>)\<close>

text \<open>\<open>handleDeleteJob\<close> on the pair of collections; \<open>confirmed\<close> is the answer of
  \<open>window.confirm\<close>.\<close>

definition handleDeleteJob ::
  "bool \<Rightarrow> string \<Rightarrow> Job list \<times> WorkLog list \<Rightarrow> Job list \<times> WorkLog list" where
  "handleDeleteJob confirmed jid st =
     (case st of (js, ls) \<Rightarrow>
        if length js \<le> 1 then (js, ls)
        else if confirmed then
          (filter (\<lambda>j. job_id j \<noteq> jid) js, filter (\<lambda>l. jobId l \<noteq> Some jid) ls)
        else (js, ls))"

text \<open>A sequence of delete requests, each with its confirmation answer.\<close>

definition deleteJobs ::
  "(bool \<times> string) list \<Rightarrow> Job list \<times> WorkLog list \<Rightarrow> Job list \<times> WorkLog list" where
  "deleteJobs reqs st = foldl (\<lambda>s (c, jid). handleDeleteJob c jid s) st reqs"

subsection \<open>Calendar range selection and range totals (calendar view)\<close>

text \<open>The selection state is the pair \<open>(selectStart, selectEnd)\<close>; \<open>None\<close> is \<open>null\<close>.\<close>

type_synonym Selection = "string option \<times> string option"

definition handleDateClick :: "string \<Rightarrow> Selection \<Rightarrow> Selection" where
  "handleDateClick dateStr sel =
     (case sel of (selectStart, selectEnd) \<Rightarrow>
        if \<not> truthy_str selectStart \<or> (truthy_str selectStart \<and> truthy_str selectEnd)
        then (Some dateStr, None)
        else (case selectStart of
                None \<Rightarrow> (Some dateStr, None)
              | Some s \<Rightarrow>
                  if dateStr < s then (Some dateStr, Some s)
                  else (Some s, Some dateStr)))"

definition clicks :: "string list \<Rightarrow> Selection \<Rightarrow> Selection" where
  "clicks ds sel = foldl (\<lambda>s d. handleDateClick d s) sel ds"

text \<open>When both ends of the selection are set, the start is not after the end.\<close>

definition rangeOrdered :: "Selection \<Rightarrow> bool" where
  "rangeOrdered sel = (case sel of (Some s, Some e) \<Rightarrow> s \<le> e | _ \<Rightarrow> True)"

record Totals =
  totalHours :: real
  totalEarnings :: real

text \<open>\<open>selectedStats\<close>; \<open>None\<close> is the source's \<open>null\<close>. \<open>flogs\<close> is \<open>filteredLogs\<close>.\<close>

definition selectedStats :: "Runtime \<Rightarrow> Job list \<Rightarrow> Selection \<Rightarrow> WorkLog list \<Rightarrow> Totals option" where
  "selectedStats rt jobs sel flogs =
     (case sel of (selectStart, selectEnd) \<Rightarrow>
        (case selectStart of
           None \<Rightarrow> None
         | Some s \<Rightarrow>
             if s = [] then None
             else
               (let rangeStart = s;
                    rangeEnd = or_str selectEnd s;
                    rangeLogs = filter (\<lambda>l. date l \<ge> rangeStart \<and> date l \<le> rangeEnd) flogs
                in Some (foldl (\<lambda>acc l. \<lparr> totalHours = dadd (totalHours acc) (duration l),
                                             totalEarnings = dadd (totalEarnings acc) (getLogValue rt jobs l) \<rparr>)
                               \<lparr> totalHours = 0, totalEarnings = 0 \<rparr> rangeLogs))))"

text \<open>The componentwise sum of two totals, in double precision, and membership of a log in
  a date range.\<close>

definition plusTotals :: "Totals \<Rightarrow> Totals \<Rightarrow> Totals" where
  "plusTotals a b = \<lparr> totalHours = dadd (totalHours a) (totalHours b),
                       totalEarnings = dadd (totalEarnings a) (totalEarnings b) \<rparr>"

definition inRange :: "string \<Rightarrow> string \<Rightarrow> WorkLog \<Rightarrow> bool" where
  "inRange rangeStart rangeEnd l = (date l \<ge> rangeStart \<and> date l \<le> rangeEnd)"

subsection \<open>Chart buckets (dashboard, trend mode \<open>recent\<close>)\<close>

record Bucket =
  name :: string
  hours :: real
  fullDate :: string
  isWeekend :: bool

text \<open>
  One pass of the daily loop, and the loop. \<open>weekdayName\<close> stands for the locale's short
  weekday name of \<open>toLocaleDateString\<close>, as a function of the local day of the week.
\<close>

definition dayBucket :: "Runtime \<Rightarrow> (int \<Rightarrow> string) \<Rightarrow> WorkLog list \<Rightarrow> int \<Rightarrow> nat \<Rightarrow> Bucket" where
  "dayBucket rt weekdayName flogs startDate i =
     (let d = setDate rt startDate (getDate rt startDate + int i);
          dateStr = toISODate d;
          dayLogs = filter (\<lambda>l. date l = dateStr) flogs;
          dayTotal = foldl (\<lambda>sum l. dadd sum (duration l)) 0 dayLogs;
          dayOfWeek = getDay rt d
      in \<lparr> name = weekdayName dayOfWeek, hours = dayTotal, fullDate = dateStr,
           isWeekend = (dayOfWeek = 0 \<or> dayOfWeek = 6) \<rparr>)"

definition dailyBuckets :: "Runtime \<Rightarrow> (int \<Rightarrow> string) \<Rightarrow> WorkLog list \<Rightarrow> int \<Rightarrow> nat \<Rightarrow> Bucket list" where
  "dailyBuckets rt weekdayName flogs startDate daysCount =
     map (dayBucket rt weekdayName flogs startDate) [0..<daysCount]"

text \<open>\<open>chartData\<close> with \<open>trendMode === 'recent'\<close>; \<open>now\<close> is the time value of
  \<open>new Date()\<close>.\<close>

definition chartData_recent :: "Runtime \<Rightarrow> (int \<Rightarrow> string) \<Rightarrow> int \<Rightarrow> WorkLog list \<Rightarrow> Bucket list" where
  "chartData_recent rt weekdayName now flogs =
     (let startDate = setDate rt now (getDate rt now - 6);
          daysCount = 7
      in dailyBuckets rt weekdayName flogs startDate daysCount)"

text \<open>The application's current day, \<open>new Date().toISOString().slice(0, 10)\<close>.\<close>

definition todayStr :: "int \<Rightarrow> string" where
  "todayStr now = toISODate now"

subsection \<open>Sample data\<close>

text \<open>
  Two runtimes: Hong Kong, eight hours east of UTC all year, and New York in 2024, five
  hours west of UTC, four while daylight-saving time is in force (from 2024-03-10 07:00 UTC
  to 2024-11-03 06:00 UTC). A local time in the hour skipped in March or in the hour
  repeated in November is read with the offset in force before the change.
\<close>

definition hongKong :: Runtime where
  "hongKong = fixedOffset 480"

definition newYork :: Runtime where
  "newYork =
     \<lparr> utcOffset = (\<lambda>t. if 1710054000000 \<le> t \<and> t < 1730613600000 then - 240 else - 300),
       localOffset = (\<lambda>lt. if 1710039600000 \<le> lt \<and> lt < 1730599200000 then - 240 else - 300),
       parseOther = (\<lambda>s. None) \<rparr>"

text \<open>The job and the logs of the specification's end-to-end scenario.\<close>

definition jobA :: Job where
  "jobA = \<lparr> job_id = ''a'', job_name = ''Job A'', color = ''#4F46E5'', hourlyRate = 60,
            weekendHourlyRate = 70, targetHours = 100, nextHourlyRate = 70,
            nextWeekendHourlyRate = 80 \<rparr>"

definition mkLog :: "string option \<Rightarrow> string \<Rightarrow> real \<Rightarrow> WorkLog" where
  "mkLog jid d h = \<lparr> log_id = ''l'', jobId = jid, date = d, startTime = ''-'', endTime = ''-'',
                     duration = h, log_notes = [], timestamp = 0 \<rparr>"

text \<open>A job whose promotion threshold has been set to 0 in the settings form.\<close>

definition jobZero :: Job where
  "jobZero = jobA \<lparr> job_id := ''z'', targetHours := 0 \<rparr>"

text \<open>A Saturday and a Tuesday shift of five hours each, and the period totals of the
  fourteen days ending on 2024-03-10.\<close>

definition sampleLogs :: "WorkLog list" where
  "sampleLogs = [mkLog (Some ''a'') ''2024-03-09'' 5, mkLog (Some ''a'') ''2024-03-05'' 5]"

text \<open>A single shift of five hours on Sunday 2024-03-10.\<close>

definition sundayLogs :: "WorkLog list" where
  "sundayLogs = [mkLog (Some ''a'') ''2024-03-10'' 5]"

text \<open>Three weekday shifts entered as 0.1, 0.2 and 0.3 hours (the doubles nearest to
  them), and the selection of March 2024.\<close>

definition tenthLogs :: "WorkLog list" where
  "tenthLogs = [mkLog (Some ''a'') ''2024-03-05'' (rnd (1 / 10)),
                mkLog (Some ''a'') ''2024-03-06'' (rnd (1 / 5)),
                mkLog (Some ''a'') ''2024-03-07'' (rnd (3 / 10))]"

definition march :: Selection where
  "march = (Some ''2024-03-01'', Some ''2024-03-31'')"




text \<open>A persisted state of the single-job schema: only the weekday rate was configured
  (the stored threshold is 0), one log without a \<open>jobId\<close> and one that carries one.\<close>

definition legacy80 :: UserSettings where
  "legacy80 = DEFAULT_SETTINGS \<lparr> old_hourlyRate := Some 80, old_targetHours := Some 0 \<rparr>"

definition legacyLogs :: "WorkLog list" where
  "legacyLogs = [mkLog None ''2024-03-09'' 5, mkLog (Some ''x'') ''2024-03-05'' 5]"

text \<open>Two stored items with these logs and no jobs: one with the settings, one without a
  settings object.\<close>

definition legacyBlob :: "unit ParsedState" where
  "legacyBlob = \<lparr> p_logs = Some legacyLogs, p_settings = Some legacy80,
                  p_jobs = None, p_templates = None \<rparr>"

definition bareBlob :: "unit ParsedState" where
  "bareBlob = \<lparr> p_logs = Some legacyLogs, p_settings = None,
                p_jobs = None, p_templates = None \<rparr>"

text \<open>Two jobs that share an identifier, a backup file that contains them, the state of a
  new user, and the state after that user has imported the file.\<close>

definition jobDup :: Job where
  "jobDup = jobA \<lparr> job_name := ''Job B'' \<rparr>"

definition dupFile :: "unit ParsedState" where
  "dupFile = \<lparr> p_logs = Some sampleLogs, p_settings = Some DEFAULT_SETTINGS,
               p_jobs = Some [jobA, jobDup], p_templates = Some [] \<rparr>"

definition freshState :: "unit AppState" where
  "freshState = \<lparr> st_logs = [], st_settings = DEFAULT_SETTINGS,
                  st_jobs = [DEFAULT_JOB \<lparr> job_id := ''u'' \<rparr>], st_templates = [] \<rparr>"

definition importedDup :: "unit AppState" where
  "importedDup = \<lparr> st_logs = sampleLogs, st_settings = DEFAULT_SETTINGS,
                   st_jobs = [jobA, jobDup], st_templates = [] \<rparr>"


text \<open>English short weekday names, standing in for the locale's.\<close>

definition weekdayEn :: "int \<Rightarrow> string" where
  "weekdayEn n = [''Sun'', ''Mon'', ''Tue'', ''Wed'', ''Thu'', ''Fri'', ''Sat''] ! nat n"

section \<open>Verified properties\<close>

subsection \<open>Double-precision arithmetic\<close>

lemma round_even_of_int: "round_even (of_int j) = j"
  by (simp add: round_even_def)

lemma round_even_close: "\<bar>of_int (round_even y) - y\<bar> \<le> 1 / 2"
  unfolding round_even_def Let_def by (auto simp add: abs_if) linarith+

lemma binade_bounds:
  assumes "x \<noteq> 0"
  shows "2 powi binade x \<le> \<bar>x\<bar>" and "\<bar>x\<bar> < 2 powi (binade x + 1)"
proof -
  have pos: "0 < \<bar>x\<bar>" using assms by simp
  have "\<lfloor>log 2 \<bar>x\<bar>\<rfloor> = binade x" by (simp add: binade_def)
  then have "2 powr of_int (binade x) \<le> \<bar>x\<bar> \<and> \<bar>x\<bar> < 2 powr (of_int (binade x) + 1)"
    using floor_log_eq_powr_iff [of "\<bar>x\<bar>" 2 "binade x"] pos by simp
  then show "2 powi binade x \<le> \<bar>x\<bar>" and "\<bar>x\<bar> < 2 powi (binade x + 1)"
    using powr_real_of_int' [of 2 "binade x"] powr_real_of_int' [of 2 "binade x + 1"]
    by simp_all
qed

lemma binade_eqI:
  assumes "2 powi n \<le> \<bar>x\<bar>" and "\<bar>x\<bar> < 2 powi (n + 1)"
  shows "binade x = n"
proof -
  have pos: "0 < \<bar>x\<bar>" using assms(1) by (smt (verit) zero_less_power_int)
  have "2 powr of_int n \<le> \<bar>x\<bar> \<and> \<bar>x\<bar> < 2 powr (of_int n + 1)"
    using assms powr_real_of_int' [of 2 n] powr_real_of_int' [of 2 "n + 1"] by simp
  then show ?thesis
    unfolding binade_def using floor_log_eq_powr_iff [of "\<bar>x\<bar>" 2 n] pos by simp
qed

text \<open>Evaluation: scale into the range of the 53-bit integers, round there, scale back.\<close>

lemma rnd_scaled:
  assumes "2 ^ 52 \<le> \<bar>x\<bar> * 2 powi k" and "\<bar>x\<bar> * 2 powi k < 2 ^ 53"
  shows "rnd x = of_int (round_even (x * 2 powi k)) / 2 powi k"
proof -
  have p: "(0::real) < 2 powi k" by simp
  have nz: "x \<noteq> 0" using assms(1) by auto
  have "2 powi (52 - k) \<le> \<bar>x\<bar>"
    using assms(1) p by (simp add: power_int_diff pos_divide_le_eq)
  moreover have "\<bar>x\<bar> < 2 powi (52 - k + 1)"
  proof -
    have "(2::real) powi (52 - k + 1) = 2 ^ 53 / 2 powi k"
      by (simp add: power_int_diff power_int_add)
    then show ?thesis using assms(2) p by (simp add: pos_less_divide_eq)
  qed
  ultimately have b: "binade x = 52 - k" by (rule binade_eqI)
  have "(2::real) powi (binade x - 52) = 1 / 2 powi k"
    unfolding b by (simp add: power_int_minus field_simps)
  then show ?thesis using nz by (simp add: rnd_def Let_def)
qed

lemma rnd_scaled_nat:
  assumes "2 ^ 52 \<le> \<bar>x\<bar> * 2 ^ k" and "\<bar>x\<bar> * 2 ^ k < 2 ^ 53"
  shows "rnd x = of_int (round_even (x * 2 ^ k)) / 2 ^ k"
  using rnd_scaled [of x "int k"] assms by simp


lemma rnd_onGrid:
  assumes "x = of_int m / 2 ^ k" and "\<bar>m\<bar> < 2 ^ 53"
  shows "rnd x = x"
proof (cases "x = 0")
  case True
  then show ?thesis by (simp add: rnd_def)
next
  case False
  define n where "n = binade x"
  have lo: "2 powi n \<le> \<bar>x\<bar>" unfolding n_def using False by (rule binade_bounds)
  have "\<bar>x\<bar> = of_int \<bar>m\<bar> / 2 ^ k" by (simp add: assms(1))
  also have "\<dots> < 2 ^ 53 / 2 ^ k"
  proof -
    have "(of_int \<bar>m\<bar> :: real) < of_int (2 ^ 53)" using assms(2) by (simp only: of_int_less_iff)
    then show ?thesis by (simp add: divide_strict_right_mono)
  qed
  also have "\<dots> = 2 powi (53 - int k)" by (simp add: power_int_diff)
  finally have "(2::real) powi n < 2 powi (53 - int k)" using lo by linarith
  then have "n < 53 - int k"
    using power_int_increasing [of "53 - int k" n "2::real"] by (cases "n < 53 - int k") simp_all
  then have "0 \<le> 52 - int k - n" by simp
  then obtain j :: nat where j: "int j = 52 - int k - n"
    using nonneg_int_cases by metis
  have e: "(2::real) powi (n - 52) = 1 / (2 ^ k * 2 ^ j)"
  proof -
    have "n - 52 = - (int k + int j)" using j by simp
    then have "(2::real) powi (n - 52) = 2 powi (- (int k + int j))" by simp
    also have "\<dots> = 1 / 2 powi (int k + int j)"
      using power_int_minus [of "2::real" "int k + int j"] by (simp only: divide_inverse mult_1)
    also have "\<dots> = 1 / (2 ^ k * 2 ^ j)" by (simp add: power_int_add)
    finally show ?thesis .
  qed
  have "x / 2 powi (n - 52) = of_int (m * 2 ^ j)"
    unfolding e assms(1) by simp
  then have "round_even (x / 2 powi (n - 52)) = m * 2 ^ j"
    by (simp only: round_even_of_int)
  then have "rnd x = of_int (m * 2 ^ j) * 2 powi (n - 52)"
    using False by (simp add: rnd_def Let_def n_def)
  also have "\<dots> = x" unfolding e assms(1) by simp
  finally show ?thesis .
qed

lemma rnd_of_int: "\<bar>m\<bar> < 2 ^ 53 \<Longrightarrow> rnd (of_int m) = of_int m"
  using rnd_onGrid [of "of_int m" m 0] by simp

lemma rnd_1 [simp]: "rnd 1 = 1"
  using rnd_of_int [of 1] by simp

lemma rnd_numeral [simp]: "(numeral n :: int) < 2 ^ 53 \<Longrightarrow> rnd (numeral n) = numeral n"
  using rnd_of_int [of "numeral n"] by simp

text \<open>The double nearest to one tenth is slightly above it.\<close>

lemma rnd_tenth: "rnd (1 / 10) = 3602879701896397 / 36028797018963968"
  using rnd_scaled_nat [of "1 / 10" 56] by (simp add: round_even_def)

subsection \<open>Rate resolution\<close>

lemma findJob_None_iff:
  "findJob jobs jid = None \<longleftrightarrow> (\<forall>j \<in> set jobs. Some (job_id j) \<noteq> jid)"
  by (auto simp add: findJob_def find_None_iff)

lemma findJob_SomeD:
  "findJob jobs jid = Some job \<Longrightarrow> job \<in> set jobs \<and> Some (job_id job) = jid"
  unfolding findJob_def by (auto simp add: find_Some_iff)

lemma getLogEarnings_eq_getLogValue:
  "getLogEarnings rt jobs lg = getLogValue rt jobs lg"
  by (simp add: getLogEarnings_def getLogValue_def Let_def split: option.splits)

text \<open>
  The value of a log is 0 when no job has its \<open>jobId\<close>. Otherwise it is the duration times
  a rate of the first job with that id: the weekend rate when the runtime's \<open>getDay\<close> of
  the parsed date is 6 or 0, the weekday rate otherwise.
\<close>

lemma getLogValue_cases:
  "((\<forall>j \<in> set jobs. Some (job_id j) \<noteq> jobId lg) \<longrightarrow>
      getLogValue rt jobs lg = 0 \<and> getLogEarnings rt jobs lg = 0)
   \<and> ((\<exists>j \<in> set jobs. Some (job_id j) = jobId lg) \<longrightarrow>
      (\<exists>job. findJob jobs (jobId lg) = Some job \<and> job \<in> set jobs \<and> Some (job_id job) = jobId lg
         \<and> getLogValue rt jobs lg =
             (if getDay_of rt (date lg) = Some 6 \<or> getDay_of rt (date lg) = Some 0
              then dmul (duration lg) (weekendHourlyRate job)
              else dmul (duration lg) (hourlyRate job))
         \<and> getLogEarnings rt jobs lg = getLogValue rt jobs lg))"
proof (intro conjI impI)
  assume "\<forall>j \<in> set jobs. Some (job_id j) \<noteq> jobId lg"
  then have "findJob jobs (jobId lg) = None"
    by (simp add: findJob_None_iff)
  then show "getLogValue rt jobs lg = 0" and "getLogEarnings rt jobs lg = 0"
    by (simp_all add: getLogValue_def getLogEarnings_def)
next
  assume "\<exists>j \<in> set jobs. Some (job_id j) = jobId lg"
  then have "findJob jobs (jobId lg) \<noteq> None"
    by (simp add: findJob_None_iff)
  then obtain job where f: "findJob jobs (jobId lg) = Some job"
    by blast
  have v: "getLogValue rt jobs lg =
             (if getDay_of rt (date lg) = Some 6 \<or> getDay_of rt (date lg) = Some 0
              then dmul (duration lg) (weekendHourlyRate job)
              else dmul (duration lg) (hourlyRate job))"
    using f by (auto simp add: getLogValue_def Let_def)
  show "\<exists>job. findJob jobs (jobId lg) = Some job \<and> job \<in> set jobs \<and> Some (job_id job) = jobId lg
         \<and> getLogValue rt jobs lg =
             (if getDay_of rt (date lg) = Some 6 \<or> getDay_of rt (date lg) = Some 0
              then dmul (duration lg) (weekendHourlyRate job)
              else dmul (duration lg) (hourlyRate job))
         \<and> getLogEarnings rt jobs lg = getLogValue rt jobs lg"
    using f v findJob_SomeD [OF f] getLogEarnings_eq_getLogValue by blast
qed

text \<open>
  A date string is parsed as UTC midnight and \<open>getDay\<close> reads it in local time. At or east
  of UTC the result is the day of the week of the calendar date; west of UTC, where UTC
  midnight is still the evening before, it is the day before.
\<close>

lemma parseDateOnly_midnight:
  "parseDateOnly s = Some t \<Longrightarrow> t mod msPerDay = 0"
  by (auto simp add: parseDateOnly_def MakeDate_def split: if_splits option.splits)

lemma Date_parse_dateOnly:
  "parseDateOnly s = Some t \<Longrightarrow> Date_parse rt s = Some t"
  by (simp add: Date_parse_def)

lemma getDay_of_calendar:
  assumes "parseDateOnly s = Some t" and "0 \<le> utcOffset rt t" and "utcOffset rt t < 1440"
  shows "getDay_of rt s = calendarDay s"
proof -
  define c where "c = utcOffset rt t"
  from assms(1) have "t mod msPerDay = 0" by (rule parseDateOnly_midnight)
  then obtain n where n: "t = n * msPerDay" by (metis mod_eq_0_iff_dvd dvd_def mult.commute)
  have c: "utcOffset rt (n * 86400000) = c"
    using n by (simp add: c_def msPerDay_def)
  have "(n * 86400000 + c * 60000) div 86400000 = n"
    using assms(2,3) unfolding c_def [symmetric] by simp
  then show ?thesis
    using assms(1) Date_parse_dateOnly [OF assms(1), of rt]
    by (simp add: getDay_of_def calendarDay_def getDay_def Day_def LocalTime_def
          n msPerDay_def c)
qed

lemma getDay_of_west:
  assumes "parseDateOnly s = Some t" and "utcOffset rt t < 0" and "- 1440 \<le> utcOffset rt t"
  shows "getDay_of rt s = Some ((Day t + 3) mod 7)" and "calendarDay s = Some ((Day t + 4) mod 7)"
proof -
  define c where "c = utcOffset rt t"
  from assms(1) have "t mod msPerDay = 0" by (rule parseDateOnly_midnight)
  then obtain n where n: "t = n * msPerDay" by (metis mod_eq_0_iff_dvd dvd_def mult.commute)
  have c: "utcOffset rt (n * 86400000) = c"
    using n by (simp add: c_def msPerDay_def)
  have "n * 86400000 + c * 60000 = (c * 60000 + 86400000) + (n - 1) * 86400000"
    by simp
  then have "(n * 86400000 + c * 60000) div 86400000
               = (c * 60000 + 86400000) div 86400000 + (n - 1)"
    by (metis div_mult_self1 zero_neq_numeral add.commute)
  moreover have "(c * 60000 + 86400000) div 86400000 = 0"
    using assms(2,3) unfolding c_def [symmetric]
    by (simp del: div_mult_self1 div_mult_self2 div_mult_self3 div_mult_self4)
  ultimately have "(n * 86400000 + c * 60000) div 86400000 = n - 1"
    by simp
  then show "getDay_of rt s = Some ((Day t + 3) mod 7)"
    using Date_parse_dateOnly [OF assms(1), of rt]
    by (simp add: getDay_of_def getDay_def Day_def LocalTime_def n msPerDay_def c add.commute)
  show "calendarDay s = Some ((Day t + 4) mod 7)"
    using assms(1) by (simp add: calendarDay_def)
qed

text \<open>So at or east of UTC the rate follows the calendar date of the log.\<close>

lemma getLogValue_east_of_UTC:
  assumes "parseDateOnly (date lg) = Some t"
    and "0 \<le> utcOffset rt t" and "utcOffset rt t < 1440"
    and "findJob jobs (jobId lg) = Some job"
  shows "getLogValue rt jobs lg =
           (if calendarDay (date lg) = Some 6 \<or> calendarDay (date lg) = Some 0
            then dmul (duration lg) (weekendHourlyRate job)
            else dmul (duration lg) (hourlyRate job))"
  using assms(4) getDay_of_calendar [OF assms(1,2,3)]
  by (auto simp add: getLogValue_def Let_def)

lemma getDay_of_saturday: "getDay_of hongKong ''2024-03-09'' = Some 6" by code_simp
lemma getDay_of_tuesday: "getDay_of hongKong ''2024-03-05'' = Some 2" by code_simp

lemma calendarDay_sample:
  "calendarDay ''2024-03-09'' = Some 6" "calendarDay ''2024-03-11'' = Some 1"
  by code_simp+

lemma getDay_of_newYork:
  "getDay_of newYork ''2024-03-09'' = Some 5" "getDay_of newYork ''2024-03-11'' = Some 0"
  by code_simp+

text \<open>
  Claim C1 asks for the weekend rate when the log's date falls on a Saturday or Sunday
  and for the weekday rate on every other day. In New York a five-hour log dated
  Saturday 2024-03-09 is valued at the weekday rate (300 instead of 350) and one dated
  Monday 2024-03-11 at the weekend rate (350 instead of 300); the dashboard's
  \<open>getLogEarnings\<close> does the same. In Hong Kong the Saturday log is valued at 350.
\<close>

theorem getLogValue_west_of_UTC:
  "calendarDay ''2024-03-09'' = Some 6
   \<and> getLogValue newYork [jobA] (mkLog (Some ''a'') ''2024-03-09'' 5) = 300
   \<and> getLogEarnings newYork [jobA] (mkLog (Some ''a'') ''2024-03-09'' 5) = 300
   \<and> calendarDay ''2024-03-11'' = Some 1
   \<and> getLogValue newYork [jobA] (mkLog (Some ''a'') ''2024-03-11'' 5) = 350
   \<and> getLogEarnings newYork [jobA] (mkLog (Some ''a'') ''2024-03-11'' 5) = 350
   \<and> getLogValue hongKong [jobA] (mkLog (Some ''a'') ''2024-03-09'' 5) = 350"
  by (simp add: calendarDay_sample getLogEarnings_eq_getLogValue getLogValue_def findJob_def
        jobA_def mkLog_def getDay_of_newYork getDay_of_saturday dmul_def)

subsection \<open>Progress\<close>

text \<open>With a positive threshold the percentage is the clamped ratio.\<close>

lemma progressPercent_positive_target:
  assumes "0 < tgt"
  shows "progressPercent h tgt = Num (clamp 0 100 (h / tgt * 100))"
  using assms by (simp add: progressPercent_def js_div_def clamp_def)

text \<open>
  Claim C2 asks for a percentage of 0 when \<open>targetHours\<close> is 0. The dashboard divides
  without a guard: for the job with threshold 0 the percentage is \<open>NaN\<close> when no hours are
  logged and 100 as soon as some are.
\<close>

theorem progressPercent_zero_target:
  "prog_percent (dashboardProgress [jobZero] ''z'' []) = NaN
   \<and> prog_percent (dashboardProgress [jobZero] ''z'' [mkLog (Some ''z'') ''2024-03-05'' 5]) = Num 100
   \<and> progressPercent 0 0 = NaN \<and> progressPercent 5 0 = Num 100"
  by (simp add: dashboardProgress_def filteredLogs_def findJob_def jobZero_def jobA_def mkLog_def
        progressPercent_def js_div_def)

subsection \<open>Payslip reconciliation: gross and net pay\<close>








subsection \<open>Load-time migration\<close>

lemma migrate_nonempty:
  "currentJobs \<noteq> [] \<Longrightarrow>
     migrate newId oldSettings (currentJobs, currentLogs) = Inr (currentJobs, currentLogs)"
  by (simp add: migrate_def)

lemma migrate_result_nonempty:
  "migrate newId oldSettings st = Inr (js, ls) \<Longrightarrow> js \<noteq> []"
  by (auto simp add: migrate_def Let_def split: prod.splits if_splits option.splits)

lemma migrate_empty:
  "migrate newId (Some old) ([], currentLogs) =
     Inr ([mainJob newId old],
          map (\<lambda>l. l\<lparr> jobId := Some (or_str (jobId l) newId) \<rparr>) currentLogs)"
  by (simp add: migrate_def Let_def mainJob_def)

lemma migrate_no_settings:
  "migrate newId None ([], currentLogs) = Inl TypeError"
  by (simp add: migrate_def)

lemma or_str_truthy: "truthy_str a \<Longrightarrow> Some (or_str a b) = a"
  by (auto simp add: truthy_str_def or_str_def split: option.splits)

lemma migrate_keeps_jobId:
  assumes "migrate newId oldSettings (currentJobs, currentLogs) = Inr (js, ls)"
  shows "length ls = length currentLogs
    \<and> (\<forall>i < length currentLogs.
          ls ! i = (currentLogs ! i) \<lparr> jobId := jobId (ls ! i) \<rparr>
          \<and> (truthy_str (jobId (currentLogs ! i)) \<longrightarrow> jobId (ls ! i) = jobId (currentLogs ! i))
          \<and> (\<not> truthy_str (jobId (currentLogs ! i)) \<and> currentJobs \<noteq> []
                \<longrightarrow> jobId (ls ! i) = jobId (currentLogs ! i)))"
  using assms
  by (auto simp add: migrate_def Let_def or_str_truthy split: if_splits option.splits)

lemma spreadSettings_idem:
  "spreadSettings DEFAULT_SETTINGS (Some (spreadSettings DEFAULT_SETTINGS ps))
     = spreadSettings DEFAULT_SETTINGS ps"
  by (cases ps) (simp_all add: spreadSettings_def or_field_def DEFAULT_SETTINGS_def split: option.splits)

lemma loadBody_succeeds:
  assumes "p_settings parsed \<noteq> None \<or> or_list (p_jobs parsed) \<noteq> []"
  shows "loadBody newId parsed = Inr (loadState newId parsed)"
    and "st_jobs (loadState newId parsed) \<noteq> []"
proof -
  have ok: "\<exists>js ls. migrate newId (p_settings parsed) (or_list (p_jobs parsed), or_list (p_logs parsed))
                    = Inr (js, ls) \<and> js \<noteq> []"
    using assms by (auto simp add: migrate_def Let_def)
  then show "loadBody newId parsed = Inr (loadState newId parsed)"
    by (auto simp add: loadState_def loadBody_def Let_def)
  from ok show "st_jobs (loadState newId parsed) \<noteq> []"
    by (auto simp add: loadState_def loadBody_def Let_def)
qed

lemma loadState_settings:
  assumes "loadBody newId parsed = Inr s"
  shows "st_settings s = spreadSettings DEFAULT_SETTINGS (p_settings parsed)"
  using assms by (auto simp add: loadBody_def Let_def split: sum.splits)

lemma loadState_saved:
  assumes "st_jobs s \<noteq> []"
    and "st_settings s = spreadSettings DEFAULT_SETTINGS ps"
  shows "loadState newId' (savedState s) = s"
  using assms
  by (simp add: loadState_def loadBody_def savedState_def or_list_def Let_def migrate_nonempty
        spreadSettings_idem)

lemma loadState_idempotent:
  assumes "p_settings parsed \<noteq> None \<or> or_list (p_jobs parsed) \<noteq> []"
  shows "loadState newId' (savedState (loadState newId parsed)) = loadState newId parsed"
  using loadBody_succeeds [OF assms, of newId]
    loadState_settings [of newId parsed "loadState newId parsed"]
    loadState_saved [of "loadState newId parsed" "p_settings parsed" newId']
  by simp

lemma migrate_succeeds:
  assumes "oldSettings \<noteq> None \<or> fst st \<noteq> []"
  shows "\<exists>st'. migrate newId oldSettings st = Inr st'"
  using assms by (cases st) (auto simp add: migrate_def Let_def)

lemma migrate_again:
  assumes "migrate newId oldSettings st = Inr st'"
  shows "migrate newId' oldSettings' st' = Inr st'"
proof -
  obtain js ls where st': "st' = (js, ls)" by (cases st')
  with assms have "js \<noteq> []" using migrate_result_nonempty by blast
  then show ?thesis unfolding st' by (rule migrate_nonempty)
qed

lemma migrate_legacy:
  "migrate ''m'' (Some legacy80) ([], legacyLogs)
     = Inr ([mainJob ''m'' legacy80], [mkLog (Some ''m'') ''2024-03-09'' 5, mkLog (Some ''x'') ''2024-03-05'' 5])"
  by (simp add: migrate_empty legacyLogs_def mkLog_def or_str_def)

lemma loadState_bare: "loadState ''m'' bareBlob = initialState"
  by (simp add: loadState_def loadBody_def bareBlob_def or_list_def Let_def migrate_no_settings)

lemma loadState_bare_again:
  "loadState ''n'' (savedState (initialState :: unit AppState))
     = \<lparr> st_logs = [], st_settings = DEFAULT_SETTINGS,
         st_jobs = [mainJob ''n'' DEFAULT_SETTINGS], st_templates = [] \<rparr>"
  using spreadSettings_idem [of None]
  by (simp add: loadState_def loadBody_def savedState_def initialState_def or_list_def Let_def
        migrate_empty spreadSettings_def)

text \<open>
  Claim C4 as stated fails on a stored item that has neither jobs nor a settings object.
  The migration step throws, the load effect leaves the component in its initial state,
  with no job and no log, and that state is what is saved; the next load finds it and
  synthesizes a job. One load and two loads differ.
\<close>

theorem migrate_idempotent_counterexample:
  "migrate ''m'' (p_settings bareBlob) (or_list (p_jobs bareBlob), or_list (p_logs bareBlob))
     = Inl TypeError
   \<and> st_jobs (loadState ''m'' bareBlob) = []
   \<and> st_jobs (loadState ''n'' (savedState (loadState ''m'' bareBlob)))
       = [mainJob ''n'' DEFAULT_SETTINGS]
   \<and> loadState ''n'' (savedState (loadState ''m'' bareBlob)) \<noteq> loadState ''m'' bareBlob"
  by (simp add: loadState_bare loadState_bare_again)
     (simp add: bareBlob_def or_list_def migrate_no_settings initialState_def)

text \<open>
  Claim C4, amended. Migration is idempotent on every stored state that has a settings
  object or a non-empty job collection. With a non-empty job collection the migration
  step returns its input unchanged. On every such state the step succeeds, and running it
  again on its outcome, with any fresh identifier and any settings, returns that outcome;
  the load effect applied to the state it produced and saved returns that state. A log
  that carries a non-empty \<open>jobId\<close> keeps it.
\<close>

theorem migrate_idempotent:
  "(currentJobs \<noteq> [] \<longrightarrow>
      migrate newId oldSettings (currentJobs, currentLogs) = Inr (currentJobs, currentLogs))
   \<and> (oldSettings \<noteq> None \<or> fst st \<noteq> [] \<longrightarrow>
        (\<exists>st'. migrate newId oldSettings st = Inr st' \<and> migrate newId' oldSettings' st' = Inr st'))
   \<and> (\<forall>js ls. migrate newId oldSettings (currentJobs, currentLogs) = Inr (js, ls) \<longrightarrow>
         length ls = length currentLogs
         \<and> (\<forall>i < length currentLogs.
               truthy_str (jobId (currentLogs ! i)) \<longrightarrow> jobId (ls ! i) = jobId (currentLogs ! i)))
   \<and> (p_settings (parsed :: 'tpl ParsedState) \<noteq> None \<or> or_list (p_jobs parsed) \<noteq> [] \<longrightarrow>
        loadBody newId parsed = Inr (loadState newId parsed)
        \<and> loadState newId' (savedState (loadState newId parsed)) = loadState newId parsed)"
proof (intro conjI allI impI)
  assume "currentJobs \<noteq> []"
  then show "migrate newId oldSettings (currentJobs, currentLogs) = Inr (currentJobs, currentLogs)"
    by (rule migrate_nonempty)
next
  assume "oldSettings \<noteq> None \<or> fst st \<noteq> []"
  then obtain st' where "migrate newId oldSettings st = Inr st'"
    using migrate_succeeds by blast
  then show "\<exists>st'. migrate newId oldSettings st = Inr st' \<and> migrate newId' oldSettings' st' = Inr st'"
    using migrate_again by blast
next
  fix js ls
  assume "migrate newId oldSettings (currentJobs, currentLogs) = Inr (js, ls)"
  from migrate_keeps_jobId [OF this]
  show "length ls = length currentLogs" by simp
next
  fix js ls i
  assume "migrate newId oldSettings (currentJobs, currentLogs) = Inr (js, ls)"
    and "i < length currentLogs" and "truthy_str (jobId (currentLogs ! i))"
  with migrate_keeps_jobId [of newId oldSettings currentJobs currentLogs js ls]
  show "jobId (ls ! i) = jobId (currentLogs ! i)" by blast
next
  assume a: "p_settings parsed \<noteq> None \<or> or_list (p_jobs parsed) \<noteq> []"
  then show "loadBody newId parsed = Inr (loadState newId parsed)"
    by (rule loadBody_succeeds)
  from a show "loadState newId' (savedState (loadState newId parsed)) = loadState newId parsed"
    by (rule loadState_idempotent)
qed

lemma loadState_legacy:
  "loadState ''m'' legacyBlob
     = \<lparr> st_logs = [mkLog (Some ''m'') ''2024-03-09'' 5, mkLog (Some ''x'') ''2024-03-05'' 5],
         st_settings = legacy80, st_jobs = [mainJob ''m'' legacy80], st_templates = [] \<rparr>"
  by (simp add: loadState_def loadBody_def legacyBlob_def or_list_def Let_def migrate_legacy)
     (simp add: spreadSettings_def or_field_def legacy80_def DEFAULT_SETTINGS_def)

theorem migrate_idempotent_witness:
  "migrate ''m'' (Some legacy80) ([], legacyLogs)
     = Inr ([mainJob ''m'' legacy80], [mkLog (Some ''m'') ''2024-03-09'' 5, mkLog (Some ''x'') ''2024-03-05'' 5])
   \<and> migrate ''n'' None ([mainJob ''m'' legacy80],
                          [mkLog (Some ''m'') ''2024-03-09'' 5, mkLog (Some ''x'') ''2024-03-05'' 5])
     = Inr ([mainJob ''m'' legacy80], [mkLog (Some ''m'') ''2024-03-09'' 5, mkLog (Some ''x'') ''2024-03-05'' 5])
   \<and> st_jobs (loadState ''m'' legacyBlob) = [mainJob ''m'' legacy80]
   \<and> map jobId (st_logs (loadState ''m'' legacyBlob)) = [Some ''m'', Some ''x'']
   \<and> loadState ''n'' (savedState (loadState ''m'' legacyBlob)) = loadState ''m'' legacyBlob"
proof -
  note step = migrate_idempotent
    [of "[]" "''m''" "Some legacy80" legacyLogs "([], legacyLogs)" "''n''" None legacyBlob]
  have "Some legacy80 \<noteq> None \<or> fst ([] :: Job list, legacyLogs) \<noteq> []" by simp
  with step obtain st' where
    a: "migrate ''m'' (Some legacy80) ([], legacyLogs) = Inr st'"
    and b: "migrate ''n'' None st' = Inr st'"
    by blast
  have "p_settings legacyBlob \<noteq> None \<or> or_list (p_jobs legacyBlob) \<noteq> []"
    by (simp add: legacyBlob_def)
  with step have c: "loadState ''n'' (savedState (loadState ''m'' legacyBlob)) = loadState ''m'' legacyBlob"
    by blast
  show ?thesis
    using a b c by (simp add: migrate_legacy loadState_legacy mkLog_def)
qed

text \<open>
  Claim C5 as stated fails: a missing legacy weekend rate does not fall back to the
  default job's weekend rate when a legacy weekday rate is present, but to that weekday
  rate. With only \<open>hourlyRate = 80\<close> stored, the synthesized job has weekend rate 80, not 60.
\<close>

theorem mainJob_counterexample:
  "old_weekendHourlyRate legacy80 = None
   \<and> migrate ''m'' (Some legacy80) ([], []) = Inr ([mainJob ''m'' legacy80], [])
   \<and> weekendHourlyRate (mainJob ''m'' legacy80) = 80
   \<and> weekendHourlyRate DEFAULT_JOB = 60
   \<and> weekendHourlyRate (mainJob ''m'' legacy80) \<noteq> weekendHourlyRate DEFAULT_JOB"
  by (simp add: migrate_empty legacy80_def DEFAULT_SETTINGS_def mainJob_def DEFAULT_JOB_def
        or_num_def or_opt_def truthy_num_def)

text \<open>
  Claim C5, amended. With an empty job collection and a settings object present,
  migration synthesizes exactly one job, named "Main Job". Its weekday rate, threshold and
  next weekday rate are the legacy fields of the same names when present and not 0, else
  the default job's values. Its weekend rate is the legacy weekend rate when present and
  not 0, else the legacy weekday rate when present and not 0, else the default; the next
  weekend rate falls back in the same way to the legacy next weekday rate, then to the
  default.
\<close>

theorem mainJob_spec:
  assumes "length currentJobs = 0" and "oldSettings = Some old"
  shows "\<exists>mj ls. migrate newId oldSettings (currentJobs, currentLogs) = Inr ([mj], ls)
     \<and> job_name mj = ''Main Job'' \<and> job_id mj = newId \<and> color mj = color DEFAULT_JOB
     \<and> hourlyRate mj =
          (if truthy_num (old_hourlyRate old) then the (old_hourlyRate old) else hourlyRate DEFAULT_JOB)
     \<and> weekendHourlyRate mj =
          (if truthy_num (old_weekendHourlyRate old) then the (old_weekendHourlyRate old)
           else if truthy_num (old_hourlyRate old) then the (old_hourlyRate old)
           else weekendHourlyRate DEFAULT_JOB)
     \<and> targetHours mj =
          (if truthy_num (old_targetHours old) then the (old_targetHours old) else targetHours DEFAULT_JOB)
     \<and> nextHourlyRate mj =
          (if truthy_num (old_nextHourlyRate old) then the (old_nextHourlyRate old)
           else nextHourlyRate DEFAULT_JOB)
     \<and> nextWeekendHourlyRate mj =
          (if truthy_num (old_nextWeekendHourlyRate old) then the (old_nextWeekendHourlyRate old)
           else if truthy_num (old_nextHourlyRate old) then the (old_nextHourlyRate old)
           else nextWeekendHourlyRate DEFAULT_JOB)"
  using assms
  by (auto simp add: migrate_def Let_def mainJob_def or_num_def or_opt_def truthy_num_def
        split: option.splits)

theorem mainJob_spec_witness:
  "migrate ''m'' (Some legacy80) ([], legacyLogs)
     = Inr ([mainJob ''m'' legacy80], [mkLog (Some ''m'') ''2024-03-09'' 5, mkLog (Some ''x'') ''2024-03-05'' 5])
   \<and> job_name (mainJob ''m'' legacy80) = ''Main Job''
   \<and> hourlyRate (mainJob ''m'' legacy80) = 80
   \<and> weekendHourlyRate (mainJob ''m'' legacy80) = 80
   \<and> targetHours (mainJob ''m'' legacy80) = 1000
   \<and> nextHourlyRate (mainJob ''m'' legacy80) = 70
   \<and> nextWeekendHourlyRate (mainJob ''m'' legacy80) = 70"
  using mainJob_spec [of "[]" "Some legacy80" legacy80 "''m''" legacyLogs]
  by (simp add: migrate_legacy)
     (simp add: legacy80_def DEFAULT_SETTINGS_def DEFAULT_JOB_def truthy_num_def)

subsection \<open>Calendar range selection\<close>

lemma handleDateClick_ordered: "rangeOrdered (handleDateClick d sel)"
  by (auto simp add: handleDateClick_def rangeOrdered_def split: prod.splits option.splits)

lemma clicks_snoc: "clicks (ds @ [d]) sel = handleDateClick d (clicks ds sel)"
  by (simp add: clicks_def)

lemma clicks_ordered:
  "rangeOrdered sel \<Longrightarrow> rangeOrdered (clicks ds sel)"
proof (induction ds rule: rev_induct)
  case Nil
  then show ?case by (simp add: clicks_def)
next
  case (snoc d ds)
  show ?case by (simp add: clicks_snoc handleDateClick_ordered)
qed

lemma click_before_start:
  assumes "d < s"
  shows "handleDateClick d (Some s, None) = (Some d, Some s)"
proof -
  from assms have "s \<noteq> []" by auto
  then show ?thesis using assms by (simp add: handleDateClick_def truthy_str_def)
qed

text \<open>
  Claim C6. After every sequence of date clicks, from the empty selection or from any
  ordered one, and indeed after any single click from any state, a selection with both
  ends set has its start at or before its end in the lexicographic order of strings. A
  click on a date before the single selected start makes the clicked date the start and
  the former start the end.
\<close>

theorem selection_ordered:
  "(\<forall>s e. clicks ds (None, None) = (Some s, Some e) \<longrightarrow> s \<le> e)
   \<and> (\<forall>sel s e. rangeOrdered sel \<and> clicks ds sel = (Some s, Some e) \<longrightarrow> s \<le> e)
   \<and> (\<forall>sel d s e. handleDateClick d sel = (Some s, Some e) \<longrightarrow> s \<le> e)
   \<and> (\<forall>d s. d < s \<longrightarrow> handleDateClick d (Some s, None) = (Some d, Some s))"
proof (intro conjI allI impI)
  fix s e
  assume a: "clicks ds (None, None) = (Some s, Some e)"
  have "rangeOrdered (clicks ds (None, None))"
    by (rule clicks_ordered) (simp add: rangeOrdered_def)
  with a show "s \<le> e" by (simp add: rangeOrdered_def)
next
  fix sel s e
  assume a: "rangeOrdered sel \<and> clicks ds sel = (Some s, Some e)"
  then have "rangeOrdered (clicks ds sel)" using clicks_ordered by blast
  with a show "s \<le> e" by (simp add: rangeOrdered_def)
next
  fix sel d s e
  assume a: "handleDateClick d sel = (Some s, Some e)"
  have "rangeOrdered (handleDateClick d sel)" by (rule handleDateClick_ordered)
  with a show "s \<le> e" by (simp add: rangeOrdered_def)
next
  fix d s :: string
  assume "d < s"
  then show "handleDateClick d (Some s, None) = (Some d, Some s)" by (rule click_before_start)
qed

lemma clicks_sample:
  "clicks [''2024-03-10'', ''2024-03-05''] (None, None) = (Some ''2024-03-05'', Some ''2024-03-10'')"
  by (simp add: clicks_def handleDateClick_def truthy_str_def)

theorem selection_ordered_witness:
  "clicks [''2024-03-10'', ''2024-03-05''] (None, None) = (Some ''2024-03-05'', Some ''2024-03-10'')
   \<and> (''2024-03-05'' :: string) \<le> ''2024-03-10''
   \<and> handleDateClick ''2024-03-05'' (Some ''2024-03-10'', None) = (Some ''2024-03-05'', Some ''2024-03-10'')"
proof -
  note t = selection_ordered [of "[''2024-03-10'', ''2024-03-05'']"]
  have lt: "(''2024-03-05'' :: string) < ''2024-03-10''" by simp
  from t clicks_sample have "(''2024-03-05'' :: string) \<le> ''2024-03-10''" by blast
  moreover from t lt
  have "handleDateClick ''2024-03-05'' (Some ''2024-03-10'', None) = (Some ''2024-03-05'', Some ''2024-03-10'')"
    by blast
  ultimately show ?thesis using clicks_sample by blast
qed

subsection \<open>Chart buckets of the last seven days\<close>

text \<open>There are seven buckets in every runtime, and a day without logs has 0 hours.\<close>

lemma chartData_recent_length: "length (chartData_recent rt wn now flogs) = 7"
  by (simp add: chartData_recent_def dailyBuckets_def Let_def)

lemma dayBucket_hours:
  "hours (dayBucket rt wn flogs start i)
     = foldl dadd 0 (map duration (filter (\<lambda>l. date l = fullDate (dayBucket rt wn flogs start i)) flogs))"
  by (simp add: dayBucket_def Let_def foldl_map)

lemma chartData_recent_hours:
  assumes "b \<in> set (chartData_recent rt wn now flogs)"
  shows "hours b = foldl dadd 0 (map duration (filter (\<lambda>l. date l = fullDate b) flogs))"
proof -
  from assms obtain i where b: "b = dayBucket rt wn flogs (setDate rt now (getDate rt now - 6)) i"
    by (auto simp add: chartData_recent_def dailyBuckets_def Let_def)
  show ?thesis unfolding b by (rule dayBucket_hours)
qed

lemma chartData_recent_empty_day:
  assumes "b \<in> set (chartData_recent rt wn now flogs)"
    and "\<forall>l \<in> set flogs. date l \<noteq> fullDate b"
  shows "hours b = 0"
proof -
  have "filter (\<lambda>l. date l = fullDate b) flogs = []"
    using assms(2) by (simp add: filter_empty_conv)
  then show ?thesis
    using chartData_recent_hours [OF assms(1)] by simp
qed

text \<open>
  In a runtime whose offset from UTC never changes, setting the day of month to the
  current one plus \<open>k\<close> moves a Date by \<open>k\<close> days, and the dates of the buckets are the seven
  consecutive days that end at the UTC date of the current instant.
\<close>

lemma setDate_getDate_shift:
  "setDate (fixedOffset c) t (getDate (fixedOffset c) t + k) = t + k * msPerDay"
proof -
  define lt where "lt = LocalTime (fixedOffset c) t"
  have "MakeDate (Day lt - (DateFromTime lt - 1) + (DateFromTime lt + k) - 1) (TimeWithinDay lt)
          = lt + k * msPerDay"
    by (simp add: MakeDate_def Day_def TimeWithinDay_def algebra_simps)
  then show ?thesis
    by (simp add: setDate_def getDate_def Let_def lt_def [symmetric])
       (simp add: UTC_def lt_def LocalTime_def fixedOffset_def)
qed

lemma Day_shift: "Day (t + k * msPerDay) = Day t + k"
  by (simp add: Day_def msPerDay_def)

lemma dayBucket_fullDate:
  "fullDate (dayBucket (fixedOffset c) wn flogs
       (setDate (fixedOffset c) now (getDate (fixedOffset c) now - 6)) i)
     = isoDate (Day now - 6 + int i)"
proof -
  define rt where "rt = fixedOffset c"
  define start where "start = setDate rt now (getDate rt now - 6)"
  have s: "start = now + (- 6) * msPerDay"
    unfolding start_def rt_def using setDate_getDate_shift [of c now "- 6"] by simp
  have "setDate rt start (getDate rt start + int i) = start + int i * msPerDay"
    unfolding rt_def by (rule setDate_getDate_shift)
  also have "\<dots> = now + (int i - 6) * msPerDay"
    unfolding s by (simp add: algebra_simps)
  finally have "Day (setDate rt start (getDate rt start + int i)) = Day now - 6 + int i"
    using Day_shift [of now "int i - 6"] by simp
  then show ?thesis
    by (simp add: dayBucket_def Let_def toISODate_def start_def rt_def)
qed

lemma chartData_recent_fixedOffset:
  "map fullDate (chartData_recent (fixedOffset c) wn now flogs)
     = map (\<lambda>i. isoDate (Day now - 6 + int i)) [0..<7]"
  "fullDate (last (chartData_recent (fixedOffset c) wn now flogs)) = todayStr now"
proof -
  show dates: "map fullDate (chartData_recent (fixedOffset c) wn now flogs)
          = map (\<lambda>i. isoDate (Day now - 6 + int i)) [0..<7]"
    by (simp add: chartData_recent_def dailyBuckets_def Let_def dayBucket_fullDate del: upt_Suc)
  have "chartData_recent (fixedOffset c) wn now flogs \<noteq> []"
    using chartData_recent_length [of "fixedOffset c" wn now flogs] by auto
  then have "fullDate (last (chartData_recent (fixedOffset c) wn now flogs))
               = last (map fullDate (chartData_recent (fixedOffset c) wn now flogs))"
    by (simp add: last_map)
  also have "\<dots> = isoDate (Day now)"
    unfolding dates by (simp add: upt_rec numeral_eq_Suc)
  finally show "fullDate (last (chartData_recent (fixedOffset c) wn now flogs)) = todayStr now"
    by (simp add: todayStr_def toISODate_def)
qed

text \<open>The bucket dates in New York on the evening of Monday 2024-03-11, the day after the
  clocks went forward, and in Hong Kong on the morning of Sunday 2024-03-10.\<close>

lemma recent_dates:
  "map fullDate (chartData_recent rt wn now flogs)
     = map (\<lambda>i. toISODate (setDate rt (setDate rt now (getDate rt now - 6))
                               (getDate rt (setDate rt now (getDate rt now - 6)) + int i)))
         [0..<7]"
  by (simp add: chartData_recent_def dailyBuckets_def dayBucket_def Let_def del: upt_Suc)

lemma recent_dates_newYork:
  "map fullDate (chartData_recent newYork weekdayEn 1710199800000 sundayLogs)
     = [''2024-03-06'', ''2024-03-07'', ''2024-03-08'', ''2024-03-09'', ''2024-03-10'',
        ''2024-03-10'', ''2024-03-11'']"
  unfolding recent_dates by code_simp

lemma recent_dates_hongKong:
  "map fullDate (chartData_recent hongKong weekdayEn 1710025200000 sundayLogs)
     = [''2024-03-03'', ''2024-03-04'', ''2024-03-05'', ''2024-03-06'', ''2024-03-07'',
        ''2024-03-08'', ''2024-03-09'']"
  unfolding recent_dates by code_simp

lemma local_date_sample:
  "isoDate (Day (LocalTime newYork 1710199800000)) = ''2024-03-11''"
  "isoDate (Day (LocalTime hongKong 1710025200000)) = ''2024-03-10''"
  by code_simp+

lemma recent_hours:
  "map hours (chartData_recent rt wn now flogs)
     = map (\<lambda>d. foldl dadd 0 (map duration (filter (\<lambda>l. date l = d) flogs)))
         (map fullDate (chartData_recent rt wn now flogs))"
  using chartData_recent_hours [of _ rt wn now flogs] by (simp add: comp_def)

text \<open>
  Claim C7 asks for the seven contiguous calendar days that end today. The loop steps
  through local days with \<open>setDate\<close> and names each day by the UTC date of
  \<open>toISOString\<close>. In New York at 19:30 on Monday 2024-03-11 (23:30 UTC), the day after the
  change to daylight-saving time, the seven dates are 2024-03-06 to 2024-03-11 with
  2024-03-10 twice and 2024-03-05 missing, and a five-hour log of 2024-03-10 is charted on
  two buckets. In Hong Kong at 07:00 on Sunday 2024-03-10 (23:00 UTC of the day before)
  the seven dates are contiguous and end on 2024-03-09, the day before the local date.
\<close>

theorem chartData_recent_dst:
  "length (chartData_recent newYork weekdayEn 1710199800000 sundayLogs) = 7
   \<and> map fullDate (chartData_recent newYork weekdayEn 1710199800000 sundayLogs)
       = [''2024-03-06'', ''2024-03-07'', ''2024-03-08'', ''2024-03-09'', ''2024-03-10'',
          ''2024-03-10'', ''2024-03-11'']
   \<and> map hours (chartData_recent newYork weekdayEn 1710199800000 sundayLogs)
       = [0, 0, 0, 0, 5, 5, 0]
   \<and> isoDate (Day (LocalTime newYork 1710199800000)) = ''2024-03-11''
   \<and> todayStr 1710199800000 = ''2024-03-11''
   \<and> map fullDate (chartData_recent hongKong weekdayEn 1710025200000 sundayLogs)
       = [''2024-03-03'', ''2024-03-04'', ''2024-03-05'', ''2024-03-06'', ''2024-03-07'',
          ''2024-03-08'', ''2024-03-09'']
   \<and> isoDate (Day (LocalTime hongKong 1710025200000)) = ''2024-03-10''
   \<and> todayStr 1710025200000 = ''2024-03-09''"
proof -
  have "map hours (chartData_recent newYork weekdayEn 1710199800000 sundayLogs)
          = [0, 0, 0, 0, 5, 5, 0]"
    unfolding recent_hours recent_dates_newYork
    by (simp add: sundayLogs_def mkLog_def dadd_def)
  moreover have "todayStr 1710199800000 = ''2024-03-11''" "todayStr 1710025200000 = ''2024-03-09''"
    by code_simp+
  ultimately show ?thesis
    by (simp add: chartData_recent_length recent_dates_newYork recent_dates_hongKong
          local_date_sample)
qed


subsection \<open>Range totals\<close>

text \<open>The totals of a range and the dashboard's total are sums from left to right, each
  addition rounded.\<close>

lemma foldl_totals:
  "foldl (\<lambda>acc l. \<lparr> totalHours = dadd (totalHours acc) (duration l),
                     totalEarnings = dadd (totalEarnings acc) (v l) \<rparr>) a xs
     = \<lparr> totalHours = foldl dadd (totalHours a) (map duration xs),
         totalEarnings = foldl dadd (totalEarnings a) (map v xs) \<rparr>"
  by (induction xs arbitrary: a) simp_all

lemma selectedStats_fold:
  assumes "s \<noteq> []"
  shows "selectedStats rt jobs (Some s, e) flogs =
           Some \<lparr> totalHours = foldl dadd 0 (map duration (filter (inRange s (or_str e s)) flogs)),
                  totalEarnings = foldl dadd 0 (map (getLogValue rt jobs)
                                                  (filter (inRange s (or_str e s)) flogs)) \<rparr>"
  using assms by (simp add: selectedStats_def Let_def foldl_totals inRange_def [abs_def])

lemma selectedStats_none:
  "\<not> truthy_str start \<Longrightarrow> selectedStats rt jobs (start, e) flogs = None"
  by (auto simp add: selectedStats_def truthy_str_def split: option.splits)

lemma calculateTotalEarnings_fold:
  "calculateTotalEarnings rt jobs xs = foldl dadd 0 (map (getLogEarnings rt jobs) xs)"
  by (simp add: calculateTotalEarnings_def foldl_map)

text \<open>Sums of multiples of \<open>1 / 2 ^ k\<close> that stay below \<open>2 ^ 53 / 2 ^ k\<close> are exact.\<close>

lemma onGrid_0 [simp]: "onGrid k 0"
  unfolding onGrid_def by (intro exI [of _ 0]) simp

lemma onGrid_add: "onGrid k x \<Longrightarrow> onGrid k y \<Longrightarrow> onGrid k (x + y)"
proof -
  assume "onGrid k x" and "onGrid k y"
  then obtain m n :: int where "x = of_int m / 2 ^ k" and "y = of_int n / 2 ^ k"
    unfolding onGrid_def by blast
  then have "x + y = of_int (m + n) / 2 ^ k" by (simp add: add_divide_distrib)
  then show ?thesis unfolding onGrid_def by blast
qed

lemma onGrid_mult: "onGrid k x \<Longrightarrow> onGrid r y \<Longrightarrow> onGrid (k + r) (x * y)"
proof -
  assume "onGrid k x" and "onGrid r y"
  then obtain m n :: int where "x = of_int m / 2 ^ k" and "y = of_int n / 2 ^ r"
    unfolding onGrid_def by blast
  then have "x * y = of_int (m * n) / 2 ^ (k + r)" by (simp add: power_add)
  then show ?thesis unfolding onGrid_def by blast
qed

lemma onGrid_sum_list: "\<forall>x \<in> set xs. onGrid k x \<Longrightarrow> onGrid k (sum_list xs)"
  by (induction xs) (simp_all add: onGrid_add)

lemma rnd_exact:
  assumes "onGrid k x" and "\<bar>x\<bar> * 2 ^ k < 2 ^ 53"
  shows "rnd x = x"
proof -
  from assms(1) obtain m :: int where m: "x = of_int m / 2 ^ k"
    unfolding onGrid_def by blast
  have "\<bar>x\<bar> * 2 ^ k = of_int \<bar>m\<bar>" by (simp add: m)
  with assms(2) have "(of_int \<bar>m\<bar> :: real) < of_int (2 ^ 53)" by simp
  then have "\<bar>m\<bar> < 2 ^ 53" by (simp only: of_int_less_iff)
  with m show ?thesis by (rule rnd_onGrid)
qed

lemma foldl_dadd_exact:
  assumes "\<forall>x \<in> set xs. onGrid k x" and "onGrid k a"
    and "(\<bar>a\<bar> + sum_list (map abs xs)) * 2 ^ k < 2 ^ 53"
  shows "foldl dadd a xs = a + sum_list xs"
  using assms
proof (induction xs arbitrary: a)
  case Nil
  then show ?case by simp
next
  case (Cons x xs)
  have g: "onGrid k (a + x)" using Cons.prems by (simp add: onGrid_add)
  have nn: "0 \<le> sum_list (map abs xs)" by (rule sum_list_nonneg) auto
  have le: "\<bar>a + x\<bar> + sum_list (map abs xs) \<le> \<bar>a\<bar> + sum_list (map abs (x # xs))" by simp
  have b: "(\<bar>a + x\<bar> + sum_list (map abs xs)) * 2 ^ k < 2 ^ 53"
  proof -
    have "(\<bar>a + x\<bar> + sum_list (map abs xs)) * 2 ^ k
            \<le> (\<bar>a\<bar> + sum_list (map abs (x # xs))) * 2 ^ k"
      using le by (simp only: mult_right_mono zero_le_power zero_le_numeral)
    with Cons.prems(3) show ?thesis by linarith
  qed
  have "\<bar>a + x\<bar> * 2 ^ k \<le> (\<bar>a + x\<bar> + sum_list (map abs xs)) * 2 ^ k"
    using nn by (simp add: mult_right_mono)
  with b have "\<bar>a + x\<bar> * 2 ^ k < 2 ^ 53" by linarith
  with g have e: "dadd a x = a + x" unfolding dadd_def by (rule rnd_exact)
  have "foldl dadd (a + x) xs = a + x + sum_list xs"
    using Cons.prems(1) g b by (intro Cons.IH) simp_all
  then show ?case by (simp add: e)
qed

lemma sum_list_map_filter_le:
  fixes f :: "'a \<Rightarrow> real"
  assumes "\<And>x. 0 \<le> f x"
  shows "sum_list (map f (filter P xs)) \<le> sum_list (map f xs)"
  using assms by (induction xs) (simp_all add: add_increasing)

lemma sum_list_filter_partition:
  fixes f :: "'a \<Rightarrow> real"
  assumes "mset xs = mset as + mset bs"
  shows "sum_list (map f (filter P xs)) = sum_list (map f (filter P as)) + sum_list (map f (filter P bs))"
proof -
  have "sum_list (map f (filter P xs)) = sum_mset (image_mset f (filter_mset P (mset xs)))"
    by (metis mset_filter mset_map sum_mset_sum_list)
  also have "\<dots> = sum_mset (image_mset f (filter_mset P (mset as)))
                  + sum_mset (image_mset f (filter_mset P (mset bs)))"
    by (simp add: assms)
  also have "\<dots> = sum_list (map f (filter P as)) + sum_list (map f (filter P bs))"
    by (metis mset_filter mset_map sum_mset_sum_list)
  finally show ?thesis .
qed

text \<open>
  A family of values \<open>f\<close> of the logs, all multiples of \<open>1 / 2 ^ k\<close> and with absolute values
  summing to less than \<open>2 ^ 53 / 2 ^ k\<close>: the rounded sum over any selection of the logs is
  the exact sum, and the rounded sum of the sums of two parts is the sum over the whole.
\<close>

lemma fold_selection_exact:
  assumes g: "\<forall>l \<in> set xs. onGrid k (f l)"
    and b: "sum_list (map (\<lambda>l. \<bar>f l\<bar>) xs) * 2 ^ k < 2 ^ 53"
  shows "foldl dadd 0 (map f (filter P xs)) = sum_list (map f (filter P xs))"
proof -
  have "sum_list (map (\<lambda>l. \<bar>f l\<bar>) (filter P xs)) \<le> sum_list (map (\<lambda>l. \<bar>f l\<bar>) xs)"
    by (rule sum_list_map_filter_le) simp
  then have "sum_list (map (\<lambda>l. \<bar>f l\<bar>) (filter P xs)) * 2 ^ k
               \<le> sum_list (map (\<lambda>l. \<bar>f l\<bar>) xs) * 2 ^ k"
    by (simp only: mult_right_mono zero_le_power zero_le_numeral)
  with b have "sum_list (map (\<lambda>l. \<bar>f l\<bar>) (filter P xs)) * 2 ^ k < 2 ^ 53"
    by linarith
  then have "(\<bar>0\<bar> + sum_list (map abs (map f (filter P xs)))) * 2 ^ k < 2 ^ 53"
    by (simp add: comp_def)
  moreover have "\<forall>x \<in> set (map f (filter P xs)). onGrid k x" using g by auto
  ultimately have "foldl dadd 0 (map f (filter P xs)) = 0 + sum_list (map f (filter P xs))"
    by (intro foldl_dadd_exact) simp_all
  then show ?thesis by simp
qed

lemma parts_of_whole:
  assumes "mset xs = mset as + mset bs"
  shows "set as \<subseteq> set xs" and "set bs \<subseteq> set xs"
    and "sum_list (map (\<lambda>l. \<bar>f l :: real\<bar>) as) \<le> sum_list (map (\<lambda>l. \<bar>f l\<bar>) xs)"
    and "sum_list (map (\<lambda>l. \<bar>f l :: real\<bar>) bs) \<le> sum_list (map (\<lambda>l. \<bar>f l\<bar>) xs)"
proof -
  have s: "set xs = set as \<union> set bs"
    using assms by (metis set_mset_mset set_mset_union)
  then show "set as \<subseteq> set xs" and "set bs \<subseteq> set xs" by auto
  have e: "sum_list (map (\<lambda>l. \<bar>f l\<bar>) xs)
             = sum_list (map (\<lambda>l. \<bar>f l\<bar>) as) + sum_list (map (\<lambda>l. \<bar>f l\<bar>) bs)"
    using sum_list_filter_partition [OF assms, of "\<lambda>l. \<bar>f l\<bar>" "\<lambda>_. True"] by simp
  have "0 \<le> sum_list (map (\<lambda>l. \<bar>f l\<bar>) as)" "0 \<le> sum_list (map (\<lambda>l. \<bar>f l\<bar>) bs)"
    by (rule sum_list_nonneg, auto)+
  with e show "sum_list (map (\<lambda>l. \<bar>f l\<bar>) as) \<le> sum_list (map (\<lambda>l. \<bar>f l\<bar>) xs)"
    and "sum_list (map (\<lambda>l. \<bar>f l\<bar>) bs) \<le> sum_list (map (\<lambda>l. \<bar>f l\<bar>) xs)"
    by linarith+
qed

lemma fold_partition_exact:
  assumes p: "mset xs = mset as + mset bs"
    and g: "\<forall>l \<in> set xs. onGrid k (f l)"
    and b: "sum_list (map (\<lambda>l. \<bar>f l\<bar>) xs) * 2 ^ k < 2 ^ 53"
  shows "foldl dadd 0 (map f (filter P xs)) = sum_list (map f (filter P xs))"
    and "foldl dadd 0 (map f (filter P xs))
           = dadd (foldl dadd 0 (map f (filter P as))) (foldl dadd 0 (map f (filter P bs)))"
    and "dadd (foldl dadd 0 (map f (filter P as))) (foldl dadd 0 (map f (filter P bs)))
           = foldl dadd 0 (map f (filter P as)) + foldl dadd 0 (map f (filter P bs))"
proof -
  note pw = parts_of_whole(1,2) [OF p] parts_of_whole(3,4) [OF p, of f]
  have ga: "\<forall>l \<in> set as. onGrid k (f l)" and gb: "\<forall>l \<in> set bs. onGrid k (f l)"
    using g pw(1,2) by auto
  have ba: "sum_list (map (\<lambda>l. \<bar>f l\<bar>) as) * 2 ^ k < 2 ^ 53"
  proof -
    have "sum_list (map (\<lambda>l. \<bar>f l\<bar>) as) * 2 ^ k \<le> sum_list (map (\<lambda>l. \<bar>f l\<bar>) xs) * 2 ^ k"
      using pw(3) by (simp only: mult_right_mono zero_le_power zero_le_numeral)
    with b show ?thesis by linarith
  qed
  have bb: "sum_list (map (\<lambda>l. \<bar>f l\<bar>) bs) * 2 ^ k < 2 ^ 53"
  proof -
    have "sum_list (map (\<lambda>l. \<bar>f l\<bar>) bs) * 2 ^ k \<le> sum_list (map (\<lambda>l. \<bar>f l\<bar>) xs) * 2 ^ k"
      using pw(4) by (simp only: mult_right_mono zero_le_power zero_le_numeral)
    with b show ?thesis by linarith
  qed
  show w: "foldl dadd 0 (map f (filter P xs)) = sum_list (map f (filter P xs))"
    using g b by (rule fold_selection_exact)
  have a: "foldl dadd 0 (map f (filter P as)) = sum_list (map f (filter P as))"
    using ga ba by (rule fold_selection_exact)
  have c: "foldl dadd 0 (map f (filter P bs)) = sum_list (map f (filter P bs))"
    using gb bb by (rule fold_selection_exact)
  have split: "sum_list (map f (filter P xs))
                 = sum_list (map f (filter P as)) + sum_list (map f (filter P bs))"
    using p by (rule sum_list_filter_partition)
  have "onGrid k (sum_list (map f (filter P xs)))"
    using g by (intro onGrid_sum_list) auto
  moreover have "\<bar>sum_list (map f (filter P xs))\<bar> * 2 ^ k < 2 ^ 53"
  proof -
    have "\<bar>sum_list (map f (filter P xs))\<bar> \<le> sum_list (map (\<lambda>l. \<bar>f l\<bar>) (filter P xs))"
      using sum_list_abs [of "map f (filter P xs)"] by (simp add: comp_def)
    also have "\<dots> \<le> sum_list (map (\<lambda>l. \<bar>f l\<bar>) xs)"
      by (rule sum_list_map_filter_le) simp
    finally have "\<bar>sum_list (map f (filter P xs))\<bar> * 2 ^ k
                    \<le> sum_list (map (\<lambda>l. \<bar>f l\<bar>) xs) * 2 ^ k"
      by (simp only: mult_right_mono zero_le_power zero_le_numeral)
    with b show ?thesis by linarith
  qed
  ultimately have r: "rnd (sum_list (map f (filter P xs))) = sum_list (map f (filter P xs))"
    by (rule rnd_exact)
  show "dadd (foldl dadd 0 (map f (filter P as))) (foldl dadd 0 (map f (filter P bs)))
           = foldl dadd 0 (map f (filter P as)) + foldl dadd 0 (map f (filter P bs))"
    unfolding a c dadd_def using r split by simp
  then show "foldl dadd 0 (map f (filter P xs))
           = dadd (foldl dadd 0 (map f (filter P as))) (foldl dadd 0 (map f (filter P bs)))"
    unfolding w a c using split by simp
qed

text \<open>
  The value of a log is exact when its hours are a multiple of \<open>1 / 2 ^ k\<close>, the rates of the
  jobs multiples of \<open>1 / 2 ^ r\<close>, and the product is below \<open>2 ^ 53 / 2 ^ (k + r)\<close>.
\<close>

lemma getLogValue_exact:
  assumes d: "onGrid k (duration l)"
    and j: "\<forall>j \<in> set jobs. onGrid r (hourlyRate j) \<and> onGrid r (weekendHourlyRate j)
                \<and> \<bar>hourlyRate j\<bar> \<le> R \<and> \<bar>weekendHourlyRate j\<bar> \<le> R"
    and nn: "0 \<le> R"
    and b: "\<bar>duration l\<bar> * R * 2 ^ (k + r) < 2 ^ 53"
  shows "getLogValue rt jobs l =
           (case findJob jobs (jobId l) of
              None \<Rightarrow> 0
            | Some job \<Rightarrow>
                duration l * (if getDay_of rt (date l) = Some 0 \<or> getDay_of rt (date l) = Some 6
                              then weekendHourlyRate job else hourlyRate job))"
    and "onGrid (k + r) (getLogValue rt jobs l)"
    and "\<bar>getLogValue rt jobs l\<bar> \<le> \<bar>duration l\<bar> * R"
proof -
  have ex: "rnd (duration l * q) = duration l * q \<and> onGrid (k + r) (duration l * q)
              \<and> \<bar>duration l * q\<bar> \<le> \<bar>duration l\<bar> * R"
    if q: "onGrid r q" "\<bar>q\<bar> \<le> R" for q
  proof -
    have g: "onGrid (k + r) (duration l * q)" using d q(1) by (rule onGrid_mult)
    have le: "\<bar>duration l * q\<bar> \<le> \<bar>duration l\<bar> * R"
      using q(2) by (simp add: abs_mult mult_left_mono)
    then have "\<bar>duration l * q\<bar> * 2 ^ (k + r) \<le> \<bar>duration l\<bar> * R * 2 ^ (k + r)"
      by (simp only: mult_right_mono zero_le_power zero_le_numeral)
    with b have "\<bar>duration l * q\<bar> * 2 ^ (k + r) < 2 ^ 53" by linarith
    with g have "rnd (duration l * q) = duration l * q" by (rule rnd_exact)
    with g le show ?thesis by simp
  qed
  have R: "0 \<le> \<bar>duration l\<bar> * R" using nn by simp
  have all: "(getLogValue rt jobs l =
           (case findJob jobs (jobId l) of
              None \<Rightarrow> 0
            | Some job \<Rightarrow>
                duration l * (if getDay_of rt (date l) = Some 0 \<or> getDay_of rt (date l) = Some 6
                              then weekendHourlyRate job else hourlyRate job)))
      \<and> onGrid (k + r) (getLogValue rt jobs l)
      \<and> \<bar>getLogValue rt jobs l\<bar> \<le> \<bar>duration l\<bar> * R"
  proof (cases "findJob jobs (jobId l)")
    case None
    then show ?thesis using R by (simp add: getLogValue_def)
  next
    case (Some job)
    then have "job \<in> set jobs" using findJob_SomeD by blast
    with j have q: "onGrid r (hourlyRate job)" "onGrid r (weekendHourlyRate job)"
      "\<bar>hourlyRate job\<bar> \<le> R" "\<bar>weekendHourlyRate job\<bar> \<le> R" by blast+
    from ex [OF q(1) q(3)] ex [OF q(2) q(4)] Some
    show ?thesis by (simp add: getLogValue_def Let_def dmul_def)
  qed
  from all show "getLogValue rt jobs l =
           (case findJob jobs (jobId l) of
              None \<Rightarrow> 0
            | Some job \<Rightarrow>
                duration l * (if getDay_of rt (date l) = Some 0 \<or> getDay_of rt (date l) = Some 6
                              then weekendHourlyRate job else hourlyRate job))" by blast
  from all show "onGrid (k + r) (getLogValue rt jobs l)" by blast
  from all show "\<bar>getLogValue rt jobs l\<bar> \<le> \<bar>duration l\<bar> * R" by blast
qed

text \<open>The doubles 0.2 and 0.3, and the rounded sums of the example: (0.1 + 0.2) + 0.3 is
  0.6000000000000001, while 0.2 + 0.3 is 0.5 and 0.1 + 0.5 is 0.6.\<close>

lemma rnd_fifth: "rnd (1 / 5) = 3602879701896397 / 18014398509481984"
  using rnd_scaled_nat [of "1 / 5" 55] by (simp add: round_even_def)

lemma rnd_three_tenths: "rnd (3 / 10) = 5404319552844595 / 18014398509481984"
  using rnd_scaled_nat [of "3 / 10" 54] by (simp add: round_even_def)

lemma dadd_zero_grid:
  "dadd 0 (3602879701896397 / 36028797018963968) = 3602879701896397 / 36028797018963968"
  "dadd 0 (3602879701896397 / 18014398509481984) = 3602879701896397 / 18014398509481984"
  using rnd_onGrid [of "3602879701896397 / 36028797018963968" 3602879701896397 55]
    rnd_onGrid [of "3602879701896397 / 18014398509481984" 3602879701896397 54]
  by (simp_all add: dadd_def)

lemma dadd_tenth_fifth:
  "dadd (3602879701896397 / 36028797018963968) (3602879701896397 / 18014398509481984)
     = 1351079888211149 / 4503599627370496"
  unfolding dadd_def
  using rnd_scaled_nat [of "3602879701896397 / 36028797018963968 + 3602879701896397 / 18014398509481984" 54]
  by (simp add: round_even_def)

lemma dadd_three_tenths:
  "dadd (1351079888211149 / 4503599627370496) (5404319552844595 / 18014398509481984)
     = 1351079888211149 / 2251799813685248"
  unfolding dadd_def
  using rnd_scaled_nat [of "1351079888211149 / 4503599627370496 + 5404319552844595 / 18014398509481984" 53]
  by (simp add: round_even_def)

lemma dadd_fifth_three_tenths:
  "dadd (3602879701896397 / 18014398509481984) (5404319552844595 / 18014398509481984) = 1 / 2"
  unfolding dadd_def using rnd_onGrid [of "1 / 2" 1 1] by simp

lemma dadd_tenth_half:
  "dadd (3602879701896397 / 36028797018963968) (1 / 2) = 5404319552844595 / 9007199254740992"
  unfolding dadd_def
  using rnd_scaled_nat [of "3602879701896397 / 36028797018963968 + 1 / 2" 53]
  by (simp add: round_even_def)

lemma tenthLogs_hours:
  "map_option totalHours (selectedStats rt jobs march tenthLogs)
     = Some (1351079888211149 / 2251799813685248)"
  "map_option totalHours (selectedStats rt jobs march (take 1 tenthLogs))
     = Some (3602879701896397 / 36028797018963968)"
  "map_option totalHours (selectedStats rt jobs march (drop 1 tenthLogs)) = Some (1 / 2)"
  by (simp_all add: march_def selectedStats_fold inRange_def or_str_def tenthLogs_def mkLog_def
        rnd_tenth rnd_fifth rnd_three_tenths dadd_zero_grid dadd_tenth_fifth dadd_three_tenths
        dadd_fifth_three_tenths)

text \<open>
  Claim C8 as stated fails: the totals are sums of doubles, added from left to right and
  rounded after each addition. For three shifts of 0.1, 0.2 and 0.3 hours the total hours
  of the whole are 0.6000000000000001; the first shift alone gives 0.1, the other two give
  0.5, and their sum is 0.6, both as a double and as a real number.
\<close>

theorem aggregate_counterexample:
  "mset tenthLogs = mset (take 1 tenthLogs) + mset (drop 1 tenthLogs)
   \<and> map_option totalHours (selectedStats hongKong [jobA] march tenthLogs)
       = Some (1351079888211149 / 2251799813685248)
   \<and> map_option totalHours (selectedStats hongKong [jobA] march (take 1 tenthLogs))
       = Some (3602879701896397 / 36028797018963968)
   \<and> map_option totalHours (selectedStats hongKong [jobA] march (drop 1 tenthLogs)) = Some (1 / 2)
   \<and> dadd (3602879701896397 / 36028797018963968) (1 / 2) = 5404319552844595 / 9007199254740992
   \<and> (1351079888211149 / 2251799813685248 :: real) \<noteq> 3602879701896397 / 36028797018963968 + 1 / 2
   \<and> map_option totalHours (selectedStats hongKong [jobA] march tenthLogs)
       \<noteq> Some (totalHours (plusTotals (the (selectedStats hongKong [jobA] march (take 1 tenthLogs)))
                                      (the (selectedStats hongKong [jobA] march (drop 1 tenthLogs)))))"
proof -
  have w: "map_option totalHours (selectedStats hongKong [jobA] march tenthLogs)
             = Some (1351079888211149 / 2251799813685248)"
    by (rule tenthLogs_hours(1))
  have pa: "map_option totalHours (selectedStats hongKong [jobA] march (take 1 tenthLogs))
             = Some (3602879701896397 / 36028797018963968)"
    by (rule tenthLogs_hours(2))
  have pb: "map_option totalHours (selectedStats hongKong [jobA] march (drop 1 tenthLogs)) = Some (1 / 2)"
    by (rule tenthLogs_hours(3))
  from pa have a: "totalHours (the (selectedStats hongKong [jobA] march (take 1 tenthLogs)))
             = 3602879701896397 / 36028797018963968"
    by (cases "selectedStats hongKong [jobA] march (take 1 tenthLogs)") simp_all
  from pb have b: "totalHours (the (selectedStats hongKong [jobA] march (drop 1 tenthLogs))) = 1 / 2"
    by (cases "selectedStats hongKong [jobA] march (drop 1 tenthLogs)") simp_all
  have m: "mset tenthLogs = mset (take 1 tenthLogs) + mset (drop 1 tenthLogs)"
    by (simp add: tenthLogs_def)
  have d: "dadd (3602879701896397 / 36028797018963968) (1 / 2) = 5404319552844595 / 9007199254740992"
    by (rule dadd_tenth_half)
  have n: "(1351079888211149 / 2251799813685248 :: real) \<noteq> 3602879701896397 / 36028797018963968 + 1 / 2"
    by simp
  have "totalHours (plusTotals (the (selectedStats hongKong [jobA] march (take 1 tenthLogs)))
                               (the (selectedStats hongKong [jobA] march (drop 1 tenthLogs))))
          = 5404319552844595 / 9007199254740992"
    unfolding plusTotals_def by (simp only: a b d Totals.simps)
  then have x: "map_option totalHours (selectedStats hongKong [jobA] march tenthLogs)
       \<noteq> Some (totalHours (plusTotals (the (selectedStats hongKong [jobA] march (take 1 tenthLogs)))
                                      (the (selectedStats hongKong [jobA] march (drop 1 tenthLogs)))))"
    unfolding w by simp
  from m w pa pb d n x show ?thesis by (intro conjI)
qed

lemma values_exact:
  assumes g: "\<forall>l \<in> set flogs. onGrid k (duration l)"
    and j: "\<forall>j \<in> set jobs. onGrid r (hourlyRate j) \<and> onGrid r (weekendHourlyRate j)
                \<and> \<bar>hourlyRate j\<bar> \<le> R \<and> \<bar>weekendHourlyRate j\<bar> \<le> R"
    and nn: "0 \<le> R"
    and b: "sum_list (map (\<lambda>l. \<bar>duration l\<bar>) flogs) * R * 2 ^ (k + r) < 2 ^ 53"
  shows "\<forall>l \<in> set flogs. getLogValue rt jobs l =
            (case findJob jobs (jobId l) of
               None \<Rightarrow> 0
             | Some job \<Rightarrow>
                 duration l * (if getDay_of rt (date l) = Some 0 \<or> getDay_of rt (date l) = Some 6
                               then weekendHourlyRate job else hourlyRate job))"
    and "\<forall>l \<in> set flogs. onGrid (k + r) (getLogValue rt jobs l)"
    and "sum_list (map (\<lambda>l. \<bar>getLogValue rt jobs l\<bar>) flogs) * 2 ^ (k + r) < 2 ^ 53"
proof -
  define D where "D = sum_list (map (\<lambda>l. \<bar>duration l\<bar>) flogs)"
  have each: "\<bar>duration l\<bar> \<le> D" if "l \<in> set flogs" for l
  proof -
    have "\<bar>duration l\<bar> \<in> set (map (\<lambda>l. \<bar>duration l\<bar>) flogs)" using that by simp
    moreover have "\<forall>x \<in> set (map (\<lambda>l. \<bar>duration l\<bar>) flogs). 0 \<le> x" by auto
    ultimately show ?thesis unfolding D_def by (intro member_le_sum_list) blast+
  qed
  have bl: "\<bar>duration l\<bar> * R * 2 ^ (k + r) < 2 ^ 53" if l: "l \<in> set flogs" for l
  proof -
    have "\<bar>duration l\<bar> * R \<le> D * R" using each [OF l] nn by (rule mult_right_mono)
    then have "\<bar>duration l\<bar> * R * 2 ^ (k + r) \<le> D * R * 2 ^ (k + r)"
      by (simp only: mult_right_mono zero_le_power zero_le_numeral)
    with b show ?thesis unfolding D_def by linarith
  qed
  show "\<forall>l \<in> set flogs. getLogValue rt jobs l =
            (case findJob jobs (jobId l) of
               None \<Rightarrow> 0
             | Some job \<Rightarrow>
                 duration l * (if getDay_of rt (date l) = Some 0 \<or> getDay_of rt (date l) = Some 6
                               then weekendHourlyRate job else hourlyRate job))"
  proof
    fix l assume l: "l \<in> set flogs"
    with g have d: "onGrid k (duration l)" by blast
    show "getLogValue rt jobs l =
            (case findJob jobs (jobId l) of
               None \<Rightarrow> 0
             | Some job \<Rightarrow>
                 duration l * (if getDay_of rt (date l) = Some 0 \<or> getDay_of rt (date l) = Some 6
                               then weekendHourlyRate job else hourlyRate job))"
      using d j nn bl [OF l] by (rule getLogValue_exact(1))
  qed
  show "\<forall>l \<in> set flogs. onGrid (k + r) (getLogValue rt jobs l)"
  proof
    fix l assume l: "l \<in> set flogs"
    with g have d: "onGrid k (duration l)" by blast
    show "onGrid (k + r) (getLogValue rt jobs l)"
      using d j nn bl [OF l] by (rule getLogValue_exact(2))
  qed
  have le: "\<bar>getLogValue rt jobs l\<bar> \<le> \<bar>duration l\<bar> * R" if l: "l \<in> set flogs" for l
  proof -
    from g l have d: "onGrid k (duration l)" by blast
    show ?thesis using d j nn bl [OF l] by (rule getLogValue_exact(3))
  qed
  have "sum_list (map (\<lambda>l. \<bar>getLogValue rt jobs l\<bar>) flogs)
          \<le> sum_list (map (\<lambda>l. \<bar>duration l\<bar> * R) flogs)"
    by (rule sum_list_mono) (rule le)
  also have "\<dots> = D * R" unfolding D_def by (simp only: sum_list_mult_const)
  finally have "sum_list (map (\<lambda>l. \<bar>getLogValue rt jobs l\<bar>) flogs) * 2 ^ (k + r)
                  \<le> D * R * 2 ^ (k + r)"
    by (simp only: mult_right_mono zero_le_power zero_le_numeral)
  with b show "sum_list (map (\<lambda>l. \<bar>getLogValue rt jobs l\<bar>) flogs) * 2 ^ (k + r) < 2 ^ 53"
    unfolding D_def by linarith
qed

lemma calculateTotalEarnings_values:
  "calculateTotalEarnings rt jobs xs
     = foldl dadd 0 (map (getLogValue rt jobs) (filter (\<lambda>_. True) xs))"
proof -
  have "getLogEarnings rt jobs = getLogValue rt jobs"
    by (rule ext) (rule getLogEarnings_eq_getLogValue)
  then show ?thesis by (simp add: calculateTotalEarnings_fold)
qed

text \<open>
  Claim C8, amended. Let the hours of every log be a multiple of \<open>1 / 2 ^ k\<close> and the rates
  of every job multiples of \<open>1 / 2 ^ r\<close> of absolute value at most \<open>R\<close>, with the absolute
  hours summing to less than \<open>2 ^ 53 / 2 ^ k\<close> and, multiplied by \<open>R\<close>, to less than
  \<open>2 ^ 53 / 2 ^ (k + r)\<close>; all these numbers are doubles, and no addition or multiplication
  rounds. Then, when the logs are split into two parts (as multisets: every log goes to
  exactly one part), the totals of the selected range over the whole are the
  componentwise sums of the totals over the parts, and there are no totals for the whole
  exactly when there are none for the parts (nothing is selected). The hours of a range
  are the sum of the hours of its logs, its earnings the sum of their values; the value
  of a log is 0 without a job, else its hours times the rate that rate resolution picks,
  and it is also what the dashboard calls the earnings of the log. The dashboard's total
  earnings are the sum of the earnings of the logs and are additive in the same way.
\<close>

theorem aggregate_additive:
  assumes "mset flogs = mset as + mset bs"
    and "\<forall>l \<in> set flogs. onGrid k (duration l)"
    and "\<forall>j \<in> set jobs. onGrid r (hourlyRate j) \<and> onGrid r (weekendHourlyRate j)
                \<and> \<bar>hourlyRate j\<bar> \<le> R \<and> \<bar>weekendHourlyRate j\<bar> \<le> R"
    and "0 \<le> R"
    and "sum_list (map (\<lambda>l. \<bar>duration l\<bar>) flogs) * 2 ^ k < 2 ^ 53"
    and "sum_list (map (\<lambda>l. \<bar>duration l\<bar>) flogs) * R * 2 ^ (k + r) < 2 ^ 53"
    and "k + r \<le> 1074"
  shows "selectedStats rt jobs sel flogs =
           (case (selectedStats rt jobs sel as, selectedStats rt jobs sel bs) of
              (Some a, Some b) \<Rightarrow> Some (plusTotals a b)
            | _ \<Rightarrow> None)
    \<and> (\<forall>a b. selectedStats rt jobs sel as = Some a \<and> selectedStats rt jobs sel bs = Some b \<longrightarrow>
          plusTotals a b = \<lparr> totalHours = totalHours a + totalHours b,
                              totalEarnings = totalEarnings a + totalEarnings b \<rparr>)
    \<and> (\<forall>t. selectedStats rt jobs sel flogs = Some t \<longrightarrow>
          totalHours t = sum_list (map duration (filter (inRange (the (fst sel)) (or_str (snd sel) (the (fst sel)))) flogs))
          \<and> totalEarnings t = sum_list (map (getLogValue rt jobs)
                                  (filter (inRange (the (fst sel)) (or_str (snd sel) (the (fst sel)))) flogs)))
    \<and> (\<forall>l \<in> set flogs.
          getLogValue rt jobs l =
            (case findJob jobs (jobId l) of
               None \<Rightarrow> 0
             | Some job \<Rightarrow>
                 duration l * (if getDay_of rt (date l) = Some 0 \<or> getDay_of rt (date l) = Some 6
                               then weekendHourlyRate job else hourlyRate job))
          \<and> getLogEarnings rt jobs l = getLogValue rt jobs l)
    \<and> calculateTotalEarnings rt jobs flogs = sum_list (map (getLogEarnings rt jobs) flogs)
    \<and> calculateTotalEarnings rt jobs flogs
         = dadd (calculateTotalEarnings rt jobs as) (calculateTotalEarnings rt jobs bs)
    \<and> calculateTotalEarnings rt jobs flogs
         = calculateTotalEarnings rt jobs as + calculateTotalEarnings rt jobs bs"
proof -
  note vals = values_exact [OF assms(2) assms(3) assms(4) assms(6), of rt]
  note hrs = fold_partition_exact [OF assms(1) assms(2) assms(5)]
  note ern = fold_partition_exact [OF assms(1) vals(2) vals(3)]
  have per_log: "\<forall>l \<in> set flogs.
          getLogValue rt jobs l =
            (case findJob jobs (jobId l) of
               None \<Rightarrow> 0
             | Some job \<Rightarrow>
                 duration l * (if getDay_of rt (date l) = Some 0 \<or> getDay_of rt (date l) = Some 6
                               then weekendHourlyRate job else hourlyRate job))
          \<and> getLogEarnings rt jobs l = getLogValue rt jobs l"
  proof
    fix l assume "l \<in> set flogs"
    with vals(1) have "getLogValue rt jobs l =
            (case findJob jobs (jobId l) of
               None \<Rightarrow> 0
             | Some job \<Rightarrow>
                 duration l * (if getDay_of rt (date l) = Some 0 \<or> getDay_of rt (date l) = Some 6
                               then weekendHourlyRate job else hourlyRate job))" by blast
    then show "(getLogValue rt jobs l =
            (case findJob jobs (jobId l) of
               None \<Rightarrow> 0
             | Some job \<Rightarrow>
                 duration l * (if getDay_of rt (date l) = Some 0 \<or> getDay_of rt (date l) = Some 6
                               then weekendHourlyRate job else hourlyRate job)))
          \<and> getLogEarnings rt jobs l = getLogValue rt jobs l"
      using getLogEarnings_eq_getLogValue [of rt jobs l] by (intro conjI)
  qed
  have ev: "getLogEarnings rt jobs = getLogValue rt jobs"
    by (rule ext) (rule getLogEarnings_eq_getLogValue)
  have "calculateTotalEarnings rt jobs flogs = sum_list (map (getLogValue rt jobs) (filter (\<lambda>_. True) flogs))"
    unfolding calculateTotalEarnings_values by (rule ern(1))
  then have t1: "calculateTotalEarnings rt jobs flogs = sum_list (map (getLogEarnings rt jobs) flogs)"
    unfolding ev by simp
  have t2: "calculateTotalEarnings rt jobs flogs
         = dadd (calculateTotalEarnings rt jobs as) (calculateTotalEarnings rt jobs bs)"
    unfolding calculateTotalEarnings_values by (rule ern(2))
  have "dadd (calculateTotalEarnings rt jobs as) (calculateTotalEarnings rt jobs bs)
         = calculateTotalEarnings rt jobs as + calculateTotalEarnings rt jobs bs"
    unfolding calculateTotalEarnings_values by (rule ern(3))
  with t2 have t3: "calculateTotalEarnings rt jobs flogs
         = calculateTotalEarnings rt jobs as + calculateTotalEarnings rt jobs bs"
    by (rule trans)
  obtain start e where sel: "sel = (start, e)" by (cases sel)
  have c123: "selectedStats rt jobs sel flogs =
           (case (selectedStats rt jobs sel as, selectedStats rt jobs sel bs) of
              (Some a, Some b) \<Rightarrow> Some (plusTotals a b)
            | _ \<Rightarrow> None)
    \<and> (\<forall>a b. selectedStats rt jobs sel as = Some a \<and> selectedStats rt jobs sel bs = Some b \<longrightarrow>
          plusTotals a b = \<lparr> totalHours = totalHours a + totalHours b,
                              totalEarnings = totalEarnings a + totalEarnings b \<rparr>)
    \<and> (\<forall>t. selectedStats rt jobs sel flogs = Some t \<longrightarrow>
          totalHours t = sum_list (map duration (filter (inRange (the (fst sel)) (or_str (snd sel) (the (fst sel)))) flogs))
          \<and> totalEarnings t = sum_list (map (getLogValue rt jobs)
                                  (filter (inRange (the (fst sel)) (or_str (snd sel) (the (fst sel)))) flogs)))"
  proof (cases "truthy_str start")
    case False
    then have "selectedStats rt jobs sel xs = None" for xs
      unfolding sel by (rule selectedStats_none)
    then show ?thesis by simp
  next
    case True
    then obtain s where s: "start = Some s" "s \<noteq> []"
      by (auto simp add: truthy_str_def split: option.splits)
    define P where "P = inRange s (or_str e s)"
    have P: "inRange (the (fst sel)) (or_str (snd sel) (the (fst sel))) = P"
      by (simp add: sel s P_def)
    define H where "H = (\<lambda>xs. foldl dadd 0 (map duration (filter P xs)))"
    define E where "E = (\<lambda>xs. foldl dadd 0 (map (getLogValue rt jobs) (filter P xs)))"
    have w: "selectedStats rt jobs sel xs = Some \<lparr> totalHours = H xs, totalEarnings = E xs \<rparr>" for xs
      unfolding sel s(1) P_def H_def E_def using s(2) by (rule selectedStats_fold)
    have h1: "H flogs = sum_list (map duration (filter P flogs))" unfolding H_def by (rule hrs(1))
    have h2: "H flogs = dadd (H as) (H bs)" unfolding H_def by (rule hrs(2))
    have h3: "dadd (H as) (H bs) = H as + H bs" unfolding H_def by (rule hrs(3))
    have e1: "E flogs = sum_list (map (getLogValue rt jobs) (filter P flogs))"
      unfolding E_def by (rule ern(1))
    have e2: "E flogs = dadd (E as) (E bs)" unfolding E_def by (rule ern(2))
    have e3: "dadd (E as) (E bs) = E as + E bs" unfolding E_def by (rule ern(3))
    show ?thesis
      unfolding P w by (simp add: plusTotals_def h1 [symmetric] e1 [symmetric] h2 e2 h3 e3)
  qed
  from c123 per_log t1 t2 t3 show ?thesis by (intro conjI) (elim conjE, assumption)+
qed

lemma sampleLogs_split:
  "mset sampleLogs = mset [mkLog (Some ''a'') ''2024-03-09'' 5] + mset [mkLog (Some ''a'') ''2024-03-05'' 5]"
  by (simp add: sampleLogs_def)

lemma getLogValue_sample:
  "getLogValue hongKong [jobA] (mkLog (Some ''a'') ''2024-03-09'' 5) = 350"
  "getLogValue hongKong [jobA] (mkLog (Some ''a'') ''2024-03-05'' 5) = 300"
  by (simp_all add: getLogValue_def findJob_def jobA_def mkLog_def getDay_of_saturday
        getDay_of_tuesday dmul_def)

lemma selectedStats_sample:
  "selectedStats hongKong [jobA] march [mkLog (Some ''a'') ''2024-03-09'' 5]
     = Some \<lparr> totalHours = 5, totalEarnings = 350 \<rparr>"
  "selectedStats hongKong [jobA] march [mkLog (Some ''a'') ''2024-03-05'' 5]
     = Some \<lparr> totalHours = 5, totalEarnings = 300 \<rparr>"
  by (simp_all add: march_def selectedStats_fold inRange_def or_str_def getLogValue_sample)
     (simp_all add: mkLog_def dadd_def)

lemma calculateTotalEarnings_sample:
  "calculateTotalEarnings hongKong [jobA] [mkLog (Some ''a'') ''2024-03-09'' 5] = 350"
  "calculateTotalEarnings hongKong [jobA] [mkLog (Some ''a'') ''2024-03-05'' 5] = 300"
  by (simp_all add: calculateTotalEarnings_fold getLogEarnings_eq_getLogValue getLogValue_sample
        dadd_def)

lemma sample_on_grid:
  "\<forall>l \<in> set sampleLogs. onGrid 0 (duration l)"
  "\<forall>j \<in> set [jobA]. onGrid 0 (hourlyRate j) \<and> onGrid 0 (weekendHourlyRate j)
                \<and> \<bar>hourlyRate j\<bar> \<le> 70 \<and> \<bar>weekendHourlyRate j\<bar> \<le> 70"
  "sum_list (map (\<lambda>l. \<bar>duration l\<bar>) sampleLogs) * 2 ^ 0 < 2 ^ 53"
  "sum_list (map (\<lambda>l. \<bar>duration l\<bar>) sampleLogs) * 70 * 2 ^ (0 + 0) < 2 ^ 53"
proof -
  have i: "onGrid 0 (of_int m)" for m unfolding onGrid_def by (intro exI [of _ m]) simp
  from i [of 5] show "\<forall>l \<in> set sampleLogs. onGrid 0 (duration l)"
    by (simp add: sampleLogs_def mkLog_def)
  from i [of 60] i [of 70]
  show "\<forall>j \<in> set [jobA]. onGrid 0 (hourlyRate j) \<and> onGrid 0 (weekendHourlyRate j)
                \<and> \<bar>hourlyRate j\<bar> \<le> 70 \<and> \<bar>weekendHourlyRate j\<bar> \<le> 70"
    by (simp add: jobA_def)
  show "sum_list (map (\<lambda>l. \<bar>duration l\<bar>) sampleLogs) * 2 ^ 0 < 2 ^ 53"
    "sum_list (map (\<lambda>l. \<bar>duration l\<bar>) sampleLogs) * 70 * 2 ^ (0 + 0) < 2 ^ 53"
    by (simp_all add: sampleLogs_def mkLog_def)
qed

theorem aggregate_additive_witness:
  "selectedStats hongKong [jobA] march sampleLogs = Some \<lparr> totalHours = 10, totalEarnings = 650 \<rparr>
   \<and> selectedStats hongKong [jobA] march [mkLog (Some ''a'') ''2024-03-09'' 5]
     = Some \<lparr> totalHours = 5, totalEarnings = 350 \<rparr>
   \<and> selectedStats hongKong [jobA] march [mkLog (Some ''a'') ''2024-03-05'' 5]
     = Some \<lparr> totalHours = 5, totalEarnings = 300 \<rparr>
   \<and> calculateTotalEarnings hongKong [jobA] sampleLogs = 650
   \<and> calculateTotalEarnings hongKong [jobA] [mkLog (Some ''a'') ''2024-03-09'' 5] = 350
   \<and> calculateTotalEarnings hongKong [jobA] [mkLog (Some ''a'') ''2024-03-05'' 5] = 300"
proof -
  have r: "(0::real) \<le> 70" and e: "(0::nat) + 0 \<le> 1074" by simp_all
  note t = aggregate_additive [OF sampleLogs_split sample_on_grid(1,2) r sample_on_grid(3,4) e,
      of hongKong march]
  from t have "selectedStats hongKong [jobA] march sampleLogs =
           (case (selectedStats hongKong [jobA] march [mkLog (Some ''a'') ''2024-03-09'' 5],
                  selectedStats hongKong [jobA] march [mkLog (Some ''a'') ''2024-03-05'' 5]) of
              (Some a, Some b) \<Rightarrow> Some (plusTotals a b)
            | _ \<Rightarrow> None)"
    by blast
  moreover from t have "plusTotals \<lparr> totalHours = 5, totalEarnings = 350 \<rparr>
                                   \<lparr> totalHours = 5, totalEarnings = 300 \<rparr>
          = \<lparr> totalHours = 5 + 5, totalEarnings = 350 + 300 \<rparr>"
    using selectedStats_sample by auto
  ultimately have s: "selectedStats hongKong [jobA] march sampleLogs
                        = Some \<lparr> totalHours = 10, totalEarnings = 650 \<rparr>"
    by (simp add: selectedStats_sample)
  from t have "calculateTotalEarnings hongKong [jobA] sampleLogs
         = calculateTotalEarnings hongKong [jobA] [mkLog (Some ''a'') ''2024-03-09'' 5]
           + calculateTotalEarnings hongKong [jobA] [mkLog (Some ''a'') ''2024-03-05'' 5]"
    by blast
  then have c: "calculateTotalEarnings hongKong [jobA] sampleLogs = 650"
    by (simp add: calculateTotalEarnings_sample)
  from s c show ?thesis by (simp add: selectedStats_sample calculateTotalEarnings_sample)
qed


subsection \<open>Payslip reconciliation: hour differences and remediation\<close>

lemma toFixed2_exact:
  assumes "x * 100 = of_int k"
  shows "toFixed2 x = x"
proof (cases "x < 0")
  case True
  have "(- x) * 100 + 1 / 2 = of_int (- k) + 1 / 2" using assms by simp
  then have "\<lfloor>(- x) * 100 + 1 / 2\<rfloor> = - k"
    by (simp add: floor_eq_iff)
  then show ?thesis using True assms by (simp add: toFixed2_def)
next
  case False
  have "\<lfloor>x * 100 + 1 / 2\<rfloor> = k"
    unfolding assms by (simp add: floor_eq_iff)
  then show ?thesis using False assms by (simp add: toFixed2_def)
qed







lemma rnd_eleven_hundredths: "rnd (11 / 100) = 7926335344172073 / 72057594037927936"
  using rnd_scaled_nat [of "11 / 100" 56] by (simp add: round_even_def)

lemma rnd_eleven_tenths: "rnd (11 / 10) = 2476979795053773 / 2251799813685248"
  using rnd_scaled_nat [of "11 / 10" 52] by (simp add: round_even_def)

lemma rnd_forty_nine_tenths: "rnd (49 / 10) = 2758454771764429 / 562949953421312"
  using rnd_scaled_nat [of "49 / 10" 50] by (simp add: round_even_def)

lemma rnd_six_005: "rnd (1201 / 200) = 6761028940589957 / 1125899906842624"
  using rnd_scaled_nat [of "1201 / 200" 50] by (simp add: round_even_def)

lemma dsub_eleven_tenths: "dsub (rnd (11 / 10)) 1 = 225179981368525 / 2251799813685248"
  using rnd_onGrid [of "225179981368525 / 2251799813685248" 225179981368525 51]
  by (simp add: dsub_def rnd_eleven_tenths)

lemma dsub_forty_nine_tenths: "dsub (rnd (49 / 10)) 5 = - (56294995342131 / 562949953421312)"
  using rnd_onGrid [of "- (56294995342131 / 562949953421312)" "- 56294995342131" 49]
  by (simp add: dsub_def rnd_forty_nine_tenths)

lemma dsub_six_005: "dsub (rnd (1201 / 200)) 5 = 1131529406376837 / 1125899906842624"
  using rnd_onGrid [of "1131529406376837 / 1125899906842624" 1131529406376837 50]
  by (simp add: dsub_def rnd_six_005)

text \<open>An entered 1.1 against an app value of 1 is outside the tolerance, an entered 4.9
  against 5 inside; a difference that is the double 0.1 is inside, the double 0.11 outside.\<close>

lemma tolerance_examples:
  "remediationOffered (dsub (rnd (11 / 10)) 1)"
  "\<not> remediationOffered (dsub (rnd (49 / 10)) 5)"
  "\<not> remediationOffered (rnd (1 / 10))" "\<not> remediationOffered (- rnd (1 / 10))"
  "remediationOffered (rnd (11 / 100))" "remediationOffered (- rnd (11 / 100))"
  by (simp_all add: remediationOffered_def isUnder_def isOver_def dsub_eleven_tenths
        dsub_forty_nine_tenths rnd_tenth rnd_eleven_hundredths)

lemma toFixed2_six_005: "rnd (toFixed2 (dsub (rnd (1201 / 200)) 5)) = 1"
  by (simp add: dsub_six_005 toFixed2_def)








subsection \<open>Deleting jobs\<close>

lemma filter_eq_le_one:
  "distinct (map f xs) \<Longrightarrow> length (filter (\<lambda>x. f x = a) xs) \<le> 1"
proof (induction xs)
  case Nil
  then show ?case by simp
next
  case (Cons x xs)
  show ?case
  proof (cases "f x = a")
    case True
    with Cons.prems have "\<forall>y \<in> set xs. f y \<noteq> a" by (auto simp add: image_iff)
    then have "filter (\<lambda>x. f x = a) xs = []" by (simp add: filter_empty_conv)
    with True show ?thesis by simp
  next
    case False
    with Cons show ?thesis by simp
  qed
qed

lemma handleDeleteJob_refuses:
  "length js \<le> 1 \<Longrightarrow> handleDeleteJob c jid (js, ls) = (js, ls)"
  by (simp add: handleDeleteJob_def)

lemma handleDeleteJob_invariant:
  assumes "fst st \<noteq> []" and "distinct (map job_id (fst st))"
  shows "fst (handleDeleteJob c jid st) \<noteq> [] \<and> distinct (map job_id (fst (handleDeleteJob c jid st)))"
proof -
  obtain js ls where st: "st = (js, ls)" by (cases st)
  show ?thesis
  proof (cases "length js \<le> 1 \<or> \<not> c")
    case True
    then show ?thesis using assms st by (auto simp add: handleDeleteJob_def)
  next
    case False
    then have two: "2 \<le> length js" and c: c by auto
    have "length js = length (filter (\<lambda>j. job_id j = jid) js) + length (filter (\<lambda>j. job_id j \<noteq> jid) js)"
      using sum_length_filter_compl [of "\<lambda>j. job_id j = jid" js] by simp
    moreover have "length (filter (\<lambda>j. job_id j = jid) js) \<le> 1"
      using assms(2) st filter_eq_le_one [of job_id js jid] by simp
    ultimately have "1 \<le> length (filter (\<lambda>j. job_id j \<noteq> jid) js)"
      using two by linarith
    then have "filter (\<lambda>j. job_id j \<noteq> jid) js \<noteq> []" by auto
    moreover have "distinct (map job_id (filter (\<lambda>j. job_id j \<noteq> jid) js))"
      using assms(2) st by (simp add: distinct_map_filter)
    ultimately show ?thesis using False st by (simp add: handleDeleteJob_def)
  qed
qed

lemma deleteJobs_snoc:
  "deleteJobs (reqs @ [(c, jid)]) st = handleDeleteJob c jid (deleteJobs reqs st)"
  by (simp add: deleteJobs_def)

lemma deleteJobs_invariant:
  assumes "fst st \<noteq> []" and "distinct (map job_id (fst st))"
  shows "fst (deleteJobs reqs st) \<noteq> [] \<and> distinct (map job_id (fst (deleteJobs reqs st)))"
proof (induction reqs rule: rev_induct)
  case Nil
  then show ?case using assms by (simp add: deleteJobs_def)
next
  case (snoc r reqs)
  obtain c jid where r: "r = (c, jid)" by (cases r)
  from snoc show ?case unfolding r deleteJobs_snoc
    by (intro handleDeleteJob_invariant) simp_all
qed

text \<open>
  Claim C10 as stated fails on a state in which two jobs share an identifier, as the
  import of a backup file produces it when the file says so: there are two jobs, so the
  request is not refused, and the filter removes both.
\<close>

theorem deleteJob_counterexample:
  "handleFileChange True ''n'' dupFile freshState = Inr importedDup
   \<and> st_jobs importedDup = [jobA, jobDup]
   \<and> [jobA, jobDup] \<noteq> []
   \<and> deleteJobs [(True, ''a'')] (st_jobs importedDup, st_logs importedDup) = ([], [])"
  by (simp add: handleFileChange_def handleImport_def dupFile_def importedDup_def freshState_def
        or_list_def spreadSettings_def or_field_def DEFAULT_SETTINGS_def Let_def
        deleteJobs_def handleDeleteJob_def jobDup_def jobA_def sampleLogs_def mkLog_def)

text \<open>
  Claim C10, amended. With at most one job the delete request is refused and both
  collections are unchanged. From a state with at least one job whose job identifiers are
  pairwise distinct, no delete request and no sequence of delete requests, whatever the
  confirmation answers, empties the job collection.
\<close>

theorem deleteJob_nonempty:
  "(length js \<le> 1 \<longrightarrow> handleDeleteJob c jid (js, ls) = (js, ls))
   \<and> (js \<noteq> [] \<and> distinct (map job_id js) \<longrightarrow>
        fst (handleDeleteJob c jid (js, ls)) \<noteq> [] \<and> fst (deleteJobs reqs (js, ls)) \<noteq> [])"
  using handleDeleteJob_refuses [of js c jid ls]
        handleDeleteJob_invariant [of "(js, ls)" c jid]
        deleteJobs_invariant [of "(js, ls)" reqs]
  by simp

theorem deleteJob_nonempty_witness:
  "handleDeleteJob True ''a'' ([jobA], sampleLogs) = ([jobA], sampleLogs)
   \<and> deleteJobs [(True, ''a''), (True, ''z'')] ([jobA, jobZero], sampleLogs) = ([jobZero], [])"
proof -
  have "length [jobA] \<le> 1" by simp
  with deleteJob_nonempty [of "[jobA]" True "''a''" sampleLogs "[]"]
  have "handleDeleteJob True ''a'' ([jobA], sampleLogs) = ([jobA], sampleLogs)" by blast
  moreover have "deleteJobs [(True, ''a''), (True, ''z'')] ([jobA, jobZero], sampleLogs) = ([jobZero], [])"
    by (simp add: deleteJobs_def handleDeleteJob_def jobZero_def jobA_def sampleLogs_def mkLog_def)
  ultimately show ?thesis by simp
qed

end
